theory Spec2Isabelle
  imports Main
begin

section \<open>JavaScript strings and the regular expressions of gitBranch.ts\<close>

text \<open>
  A JavaScript string is a sequence of UTF-16 code units; a code unit is modelled as a
  natural number. String literals of the source are written \<open>js ''...''\<close>.
\<close>

type_synonym jsstring = "nat list"

definition js :: "string \<Rightarrow> jsstring" where
  "js s = map of_char s"

text \<open>The character classes \<open>\w\<close>, \<open>\s\<close> and \<open>.\<close> of ECMAScript (no flags).\<close>

definition isWordChar :: "nat \<Rightarrow> bool" where
  "isWordChar c =
     ((48 \<le> c \<and> c \<le> 57) \<or> (65 \<le> c \<and> c \<le> 90) \<or> c = 95 \<or> (97 \<le> c \<and> c \<le> 122))"

definition isLineTerminator :: "nat \<Rightarrow> bool" where
  "isLineTerminator c = (c = 10 \<or> c = 13 \<or> c = 8232 \<or> c = 8233)"

definition isWhiteSpace :: "nat \<Rightarrow> bool" where
  "isWhiteSpace c =
     (c = 9 \<or> c = 11 \<or> c = 12 \<or> c = 32 \<or> c = 160 \<or> c = 5760
      \<or> (8192 \<le> c \<and> c \<le> 8202) \<or> c = 8239 \<or> c = 8287 \<or> c = 12288 \<or> c = 65279
      \<or> isLineTerminator c)"

datatype cls = WordSlash | WordDotDash | Space | Dot

fun cls_mem :: "cls \<Rightarrow> nat \<Rightarrow> bool" where
  "cls_mem WordSlash c = (isWordChar c \<or> c = 47)"
| "cls_mem WordDotDash c = (isWordChar c \<or> c = 46 \<or> c = 45)"
| "cls_mem Space c = isWhiteSpace c"
| "cls_mem Dot c = (\<not> isLineTerminator c)"

text \<open>
  The fragment of the regular-expression syntax that the source uses: literal characters,
  classes, sequence, alternative, the greedy star, capture groups and the two anchors.
\<close>

datatype rx = Eps | Chr nat | Cls cls | Seq rx rx | Alt rx rx | Star rx | Grp nat rx | Bol | Eol

definition plus_rx :: "rx \<Rightarrow> rx" where
  "plus_rx r = Seq r (Star r)"

definition opt_rx :: "rx \<Rightarrow> rx" where
  "opt_rx r = Alt r Eps"

fun lit :: "jsstring \<Rightarrow> rx" where
  "lit [] = Eps"
| "lit (c # cs) = Seq (Chr c) (lit cs)"

text \<open>
  A matcher state is the input already consumed (reversed), the input still to read and
  the captures made so far (the most recent first). \<open>ms r st\<close> lists every way in which
  \<open>r\<close> matches at \<open>st\<close>, in the priority order of a backtracking matcher: the first
  element is the match that JavaScript reports. An iteration of the star that consumes
  nothing is not repeated.
\<close>

type_synonym mstate = "jsstring \<times> jsstring \<times> (nat \<times> jsstring) list"

fun ms :: "rx \<Rightarrow> mstate \<Rightarrow> mstate list" where
  "ms Eps st = [st]"
| "ms (Chr c) (pre, rest, caps) =
     (case rest of [] \<Rightarrow> [] | x # xs \<Rightarrow> if x = c then [(x # pre, xs, caps)] else [])"
| "ms (Cls k) (pre, rest, caps) =
     (case rest of [] \<Rightarrow> [] | x # xs \<Rightarrow> if cls_mem k x then [(x # pre, xs, caps)] else [])"
| "ms (Seq a b) st = concat (map (ms b) (ms a st))"
| "ms (Alt a b) st = ms a st @ ms b st"
| "ms (Star a) (pre, rest, caps) =
     concat (map (\<lambda>(pre', rest', caps').
                    if length rest' < length rest then ms (Star a) (pre', rest', caps') else [])
                 (ms a (pre, rest, caps)))
     @ [(pre, rest, caps)]"
| "ms (Grp n a) (pre, rest, caps) =
     map (\<lambda>(pre', rest', caps').
            (pre', rest', (n, take (length rest - length rest') rest) # caps'))
         (ms a (pre, rest, caps))"
| "ms Bol (pre, rest, caps) = (if pre = [] then [(pre, rest, caps)] else [])"
| "ms Eol (pre, rest, caps) = (if rest = [] then [(pre, rest, caps)] else [])"

text \<open>
  \<open>RegExp.prototype.exec\<close> without the global flag: the match is tried at index 0, then
  at index 1, and so on to the end of the input. The result is the index where the match
  starts and the final matcher state.
\<close>

fun exec_from :: "rx \<Rightarrow> jsstring \<Rightarrow> jsstring \<Rightarrow> (nat \<times> mstate) option" where
  "exec_from r pre [] =
     (case ms r (pre, [], []) of st # _ \<Rightarrow> Some (length pre, st) | [] \<Rightarrow> None)"
| "exec_from r pre (x # xs) =
     (case ms r (pre, x # xs, []) of
        st # _ \<Rightarrow> Some (length pre, st)
      | [] \<Rightarrow> exec_from r (x # pre) xs)"

definition exec :: "rx \<Rightarrow> jsstring \<Rightarrow> (nat \<times> mstate) option" where
  "exec r s = exec_from r [] s"

definition test :: "rx \<Rightarrow> jsstring \<Rightarrow> bool" where
  "test r s = (exec r s \<noteq> None)"

text \<open>\<open>regexResults[n]\<close>: the capture of group \<open>n\<close>, \<open>None\<close> for \<open>undefined\<close>.\<close>

definition group :: "(nat \<times> mstate) \<Rightarrow> nat \<Rightarrow> jsstring option" where
  "group res n = (case res of (_, _, _, caps) \<Rightarrow> map_of caps n)"

text \<open>\<open>s.replace(r, "")\<close> for a pattern without the global flag: the first match is cut out.\<close>

definition replace_empty :: "rx \<Rightarrow> jsstring \<Rightarrow> jsstring" where
  "replace_empty r s =
     (case exec r s of None \<Rightarrow> s | Some (i, _, rest', _) \<Rightarrow> take i s @ rest')"

definition trim :: "jsstring \<Rightarrow> jsstring" where
  "trim s = rev (dropWhile isWhiteSpace (rev (dropWhile isWhiteSpace s)))"

text \<open>\<open>s.split(sep)\<close> for a separator of one code unit; the result is never empty.\<close>

fun split :: "nat \<Rightarrow> jsstring \<Rightarrow> jsstring list" where
  "split sep [] = [[]]"
| "split sep (x # xs) =
     (if x = sep then [] # split sep xs
      else (case split sep xs of l # ls \<Rightarrow> (x # l) # ls | [] \<Rightarrow> [[x]]))"

section \<open>Errors\<close>

text \<open>
  Every \<open>throw new Error(msg)\<close> of the source is \<open>Error msg\<close>. A subprocess that exits
  with a non-zero status makes \<open>spawn\<close> reject with its exit code and its standard error
  text: \<open>ProcessError\<close>. Reading a property of \<open>undefined\<close> is \<open>TypeError\<close>.
\<close>

datatype error = Error jsstring | ProcessError nat jsstring | TypeError

section \<open>GitBranch (gitBranch.ts)\<close>

record 'repo GitBranch =
  gb_repo :: 'repo
  gb_remoteName :: "jsstring option"
  gb_name :: "jsstring option"

text \<open>
  The private constructor: \<open>this._remoteName = remoteName || undefined\<close>. Both
  arguments are values that may be \<open>undefined\<close> at run time (a capture group that took
  no part in the match), so both are options.
\<close>

definition new_GitBranch :: "'repo \<Rightarrow> jsstring option \<Rightarrow> jsstring option \<Rightarrow> 'repo GitBranch" where
  "new_GitBranch repo branchName remoteName =
     \<lparr> gb_repo = repo,
       gb_remoteName = (case remoteName of None \<Rightarrow> None | Some r \<Rightarrow> if r = [] then None else Some r),
       gb_name = branchName \<rparr>"

text \<open>\<open>/^(remotes\/([\w.-]+)\/)?(.*)$/\<close>\<close>

definition strParserRegex :: rx where
  "strParserRegex =
     Seq Bol
       (Seq (opt_rx (Grp 1 (Seq (lit (js ''remotes/''))
                              (Seq (Grp 2 (plus_rx (Cls WordDotDash))) (Chr 47)))))
            (Seq (Grp 3 (Star (Cls Dot))) Eol))"

text \<open>\<open>/^\*\s+/\<close>\<close>

definition currentMarkerRegex :: rx where
  "currentMarkerRegex = Seq Bol (Seq (Chr 42) (plus_rx (Cls Space)))"

text \<open>\<open>/^[\w/]+\/HEAD\s+->\s+[\w/]+$/\<close>\<close>

definition headLineRegex :: rx where
  "headLineRegex =
     Seq Bol
       (Seq (plus_rx (Cls WordSlash))
         (Seq (lit (js ''/HEAD''))
           (Seq (plus_rx (Cls Space))
             (Seq (lit (js ''->''))
               (Seq (plus_rx (Cls Space))
                 (Seq (plus_rx (Cls WordSlash)) Eol))))))"

text \<open>The body of the last \<open>map\<close> of \<open>enumerateGitRepoBranches\<close>, for one line.\<close>

definition parseLongName :: "'repo \<Rightarrow> jsstring \<Rightarrow> error + 'repo GitBranch" where
  "parseLongName repo longName =
     (case exec strParserRegex longName of
        None \<Rightarrow>
          Inl (Error (js ''Error: Branch '' @ [34] @ longName @ [34]
                      @ js '' could not be parsed by enumerateGitRepoBranches().''))
      | Some regexResults \<Rightarrow>
          Inr (new_GitBranch repo (group regexResults 3) (group regexResults 2)))"

text \<open>A \<open>map\<close> whose callback may throw: the first throw ends it.\<close>

fun map_throwing :: "('a \<Rightarrow> error + 'b) \<Rightarrow> 'a list \<Rightarrow> error + 'b list" where
  "map_throwing f [] = Inr []"
| "map_throwing f (x # xs) =
     (case f x of
        Inl e \<Rightarrow> Inl e
      | Inr y \<Rightarrow> (case map_throwing f xs of Inl e \<Rightarrow> Inl e | Inr ys \<Rightarrow> Inr (y # ys)))"

text \<open>The lines that reach the parser: the first four steps of the chain.\<close>

definition branchLines :: "jsstring \<Rightarrow> jsstring list" where
  "branchLines stdout =
     map trim
       (filter (\<lambda>curLine. \<not> test headLineRegex curLine)
         (map (replace_empty currentMarkerRegex)
           (map trim (split 10 stdout))))"

text \<open>
  \<open>enumerateGitRepoBranches\<close>; the argument \<open>spawned\<close> is what
  \<open>spawn("git", ["branch", "-a"], dir)\<close> settles with.
\<close>

definition enumerateGitRepoBranches :: "'repo \<Rightarrow> error + jsstring \<Rightarrow> error + 'repo GitBranch list" where
  "enumerateGitRepoBranches repo spawned =
     (case spawned of
        Inl e \<Rightarrow> Inl e
      | Inr stdout \<Rightarrow> map_throwing (parseLongName repo) (branchLines stdout))"

section \<open>Promises\<close>

text \<open>
  The state a promise ends in: fulfilled with a value, rejected with a reason, or pending
  for ever (a subprocess that never exits). An \<open>async\<close> function returns a promise, and
  \<open>await p\<close> resumes with the value of \<open>p\<close>, throws the reason of \<open>p\<close>, or never resumes.
\<close>

datatype 'a promise = Fulfilled 'a | Rejected error | Pending

definition then_p :: "('a \<Rightarrow> 'b) \<Rightarrow> 'a promise \<Rightarrow> 'b promise" where
  "then_p f p = (case p of Fulfilled v \<Rightarrow> Fulfilled (f v) | Rejected e \<Rightarrow> Rejected e | Pending \<Rightarrow> Pending)"

definition catch_p :: "(error \<Rightarrow> 'a) \<Rightarrow> 'a promise \<Rightarrow> 'a promise" where
  "catch_p g p = (case p of Fulfilled v \<Rightarrow> Fulfilled v | Rejected e \<Rightarrow> Fulfilled (g e) | Pending \<Rightarrow> Pending)"

text \<open>
  \<open>Promise.all\<close>: rejected as soon as one input is rejected (also while others are
  pending), fulfilled with all the values when every input is fulfilled. Of several
  rejected inputs the one that rejects first in time gives the reason; the model takes
  the first in the list.
\<close>

fun Promise_all :: "'a promise list \<Rightarrow> 'a list promise" where
  "Promise_all [] = Fulfilled []"
| "Promise_all (p # ps) =
     (case p of
        Rejected e \<Rightarrow> Rejected e
      | Pending \<Rightarrow> (case Promise_all ps of Rejected e \<Rightarrow> Rejected e | _ \<Rightarrow> Pending)
      | Fulfilled v \<Rightarrow>
          (case Promise_all ps of
             Fulfilled vs \<Rightarrow> Fulfilled (v # vs)
           | Rejected e \<Rightarrow> Rejected e
           | Pending \<Rightarrow> Pending))"

section \<open>Validator (validator.ts)\<close>

text \<open>
  What a \<open>ValidatorFunc\<close> returns: \<open>boolean | Promise<boolean>\<close>. The constructor's
  contract is that each function returns one of the two; a function that throws instead
  of returning is outside that contract and has no value here. A promise may be
  fulfilled, be rejected, or stay pending.
\<close>

datatype vresult = Plain bool | Async "bool promise"

type_synonym 'subject ValidatorFunc = "'subject \<Rightarrow> vresult"

definition Promise_resolve :: "vresult \<Rightarrow> bool promise" where
  "Promise_resolve r = (case r of Plain b \<Rightarrow> Fulfilled b | Async p \<Rightarrow> p)"

definition isValid :: "'subject ValidatorFunc list \<Rightarrow> 'subject \<Rightarrow> bool promise" where
  "isValid validatorFuncs subject =
     (let promises = map (\<lambda>curValidatorFunc. Promise_resolve (curValidatorFunc subject)) validatorFuncs
      in catch_p (\<lambda>_. False) (then_p (\<lambda>validationResults. list_all id validationResults) (Promise_all promises)))"

section \<open>GitBranch.isValidBranchName and GitBranch.create\<close>

text \<open>
  \<open>checkRefFormat name\<close> is what \<open>spawn("git", ["check-ref-format", "--allow-onelevel", name])\<close>
  settles with: the subprocess belongs to the environment.
\<close>

definition isValidBranchName :: "(jsstring \<Rightarrow> jsstring promise) \<Rightarrow> jsstring ValidatorFunc" where
  "isValidBranchName checkRefFormat branchName =
     Async (catch_p (\<lambda>_. False) (then_p (\<lambda>_. True) (checkRefFormat branchName)))"

definition GitBranch_create ::
  "(jsstring \<Rightarrow> jsstring promise) \<Rightarrow> 'repo \<Rightarrow> jsstring \<Rightarrow> jsstring option \<Rightarrow> 'repo GitBranch promise" where
  "GitBranch_create checkRefFormat repo branchName remoteName =
     (case isValid [isValidBranchName checkRefFormat] branchName of
        Fulfilled valid \<Rightarrow>
          if \<not> valid
          then Rejected (Error (js ''Cannot create GitBranch instance from invalid branch name ''
                                @ branchName @ js ''.''))
          else Fulfilled (new_GitBranch repo (Some branchName) remoteName)
      | Rejected e \<Rightarrow> Rejected e
      | Pending \<Rightarrow> Pending)"

section \<open>The publish workflow (publishtogit.ts)\<close>

subsection \<open>Values\<close>

text \<open>
  A value that yargs delivers for one \<open>--tag\<close>. The option has no declared type, so a
  value that looks like a number arrives as a number (\<open>--tag 5\<close>) and an option with no
  value as \<open>true\<close>; everything else is a string. A number is given by the text that
  \<open>String(n)\<close> yields: two numbers are the same value for lodash (SameValueZero) exactly
  when these texts are equal.
\<close>

datatype tagValue = StrTag jsstring | NumTag jsstring | BoolTag bool

text \<open>\<open>`${v}`\<close> for such a value.\<close>

fun tag_text :: "tagValue \<Rightarrow> jsstring" where
  "tag_text (StrTag s) = s"
| "tag_text (NumTag t) = t"
| "tag_text (BoolTag b) = (if b then js ''true'' else js ''false'')"

text \<open>Truthiness: the empty string, \<open>0\<close>, \<open>NaN\<close> and \<open>false\<close> are falsy.\<close>

fun tag_truthy :: "tagValue \<Rightarrow> bool" where
  "tag_truthy (StrTag s) = (s \<noteq> [])"
| "tag_truthy (NumTag t) = (t \<noteq> js ''0'' \<and> t \<noteq> js ''NaN'')"
| "tag_truthy (BoolTag b) = b"

text \<open>\<open>argv.tag\<close>: absent, one value, or an array of values when the option is repeated.\<close>

datatype tagArg = TagUndefined | TagOne tagValue | TagArray "tagValue list"

text \<open>The local-time fields that \<open>checkoutTempBranch\<close> reads from \<open>new Date()\<close>.\<close>

record date =
  getFullYear :: nat
  getMonth :: nat
  getDate :: nat
  getHours :: nat
  getMinutes :: nat
  getSeconds :: nat
  getMilliseconds :: nat

text \<open>
  \<open>pkg_version\<close> is \<open>pkg.config.version\<close>; \<open>pkg_repository_url\<close> is
  \<open>pkg.config.repository.url\<close>, \<open>None\<close> when \<open>pkg.config.repository\<close> is \<open>undefined\<close>.
\<close>

record NodePackage =
  pkg_version :: "jsstring option"
  pkg_repository_url :: "jsstring option"
  pkg_projectName :: jsstring

record GitRepo =
  repo_directory :: jsstring

record IInstanceConfig =
  devRepo :: GitRepo
  pkg :: NodePackage
  dryRun :: bool
  tags :: "tagValue list"

subsection \<open>Operations, events and runs\<close>

text \<open>
  The asynchronous operations of the collaborators (GitRepo, NodePackage, Directory,
  File, spawn): calling one starts it and returns a promise.
\<close>

datatype op =
    GitRepo_fromDirectory
  | NodePackage_fromDirectory
  | Dev_modifiedFiles
  | Dev_untrackedFiles
  | Dev_tags
  | Dev_currentCommitHash
  | GitRepo_clone jsstring jsstring
  | Pub_checkoutCommit jsstring
  | Spawn_checkRefFormat jsstring
  | Pub_checkoutBranch jsstring bool
  | Pub_files
  | File_delete jsstring
  | Dir_prune
  | Pkg_publish jsstring bool
  | Pub_stageAll
  | Pub_commit jsstring
  | Pub_currentCommitHash
  | Pub_createTag tagValue jsstring bool
  | Pub_pushTag tagValue jsstring bool

datatype syncop = Config_init | Dir_deleteSync jsstring

text \<open>
  What a run does, in order: \<open>Started x\<close> when \<open>x\<close> is called, \<open>Awaited x\<close> when the
  \<open>await\<close> on its promise resumes (the operation has settled), \<open>AwaitedAll xs\<close> when the
  \<open>await\<close> on a \<open>Promise.all\<close> resumes, \<open>Did x\<close> for a synchronous call, \<open>Log s\<close> for
  \<open>console.log(s)\<close>.
\<close>

datatype event = Started op | Awaited op | AwaitedAll "op list" | Did syncop | Log jsstring

type_synonym 'a run = "event list \<times> 'a promise"

definition return_run :: "'a \<Rightarrow> 'a run" where
  "return_run v = ([], Fulfilled v)"

definition throw_run :: "error \<Rightarrow> 'a run" where
  "throw_run e = ([], Rejected e)"

definition bind :: "'a run \<Rightarrow> ('a \<Rightarrow> 'b run) \<Rightarrow> 'b run" where
  "bind m f =
     (case m of
        (t, Fulfilled v) \<Rightarrow> (case f v of (t', r) \<Rightarrow> (t @ t', r))
      | (t, Rejected e) \<Rightarrow> (t, Rejected e)
      | (t, Pending) \<Rightarrow> (t, Pending))"

text \<open>\<open>await x(...)\<close>: the call, then the wait for its promise.\<close>

definition await :: "op \<Rightarrow> 'a promise \<Rightarrow> 'a run" where
  "await x p = (case p of Pending \<Rightarrow> ([Started x], Pending) | _ \<Rightarrow> ([Started x, Awaited x], p))"

text \<open>
  \<open>x(...)\<close> with no \<open>await\<close>: the call returns the promise and the caller goes on at
  once, whatever the promise settles with and whenever it does; a rejection of such a
  promise reaches nobody.
\<close>

definition call_only :: "op \<Rightarrow> 'a promise \<Rightarrow> 'a promise run" where
  "call_only x p = ([Started x], Fulfilled p)"

definition sync_call :: "syncop \<Rightarrow> error option \<Rightarrow> unit run" where
  "sync_call x r = ([Did x], (case r of None \<Rightarrow> Fulfilled () | Some e \<Rightarrow> Rejected e))"

definition console_log :: "jsstring \<Rightarrow> unit run" where
  "console_log s = ([Log s], Fulfilled ())"

text \<open>
  \<open>await Promise.all(_.map(xs, (x) => { console.log(msg x); return f(x); }))\<close>: the
  callbacks run in order, each logging and starting its operation, then the join.
\<close>

definition await_all :: "('a \<Rightarrow> event list) \<Rightarrow> ('a \<Rightarrow> op) \<Rightarrow> ('a \<Rightarrow> 'b promise) \<Rightarrow> 'a list \<Rightarrow> 'b list run" where
  "await_all logs x p xs =
     (let joined = Promise_all (map p xs)
      in (concat (map (\<lambda>a. logs a @ [Started (x a)]) xs)
            @ (case joined of Pending \<Rightarrow> [] | _ \<Rightarrow> [AwaitedAll (map x xs)]),
          joined))"

subsection \<open>The environment\<close>

text \<open>
  Everything the workflow reads from outside: the command line, the clock, the user, and
  what each operation of a collaborator settles with. The collaborators' code (GitRepo,
  NodePackage, Directory, Url, the configuration, spawn) is not part of the sources at
  hand, so their answers are parameters of a run. Their operations return promises, as
  every \<open>await\<close> on them in \<open>main\<close> shows; a commit hash and a URL are taken as their
  strings.
\<close>

record world =
  argv_tag :: tagArg
  argv_tag_version :: bool
  argv_dry_run :: bool
  userInfo_username :: jsstring
  date_now :: date
  config_tmpDir :: jsstring
  r_config_init :: "error option"
  r_GitRepo_fromDirectory :: "GitRepo promise"
  r_NodePackage_fromDirectory :: "NodePackage promise"
  r_modifiedFiles :: "jsstring list promise"
  r_untrackedFiles :: "jsstring list promise"
  r_tags :: "jsstring list promise"
  r_dev_currentCommitHash :: "jsstring promise"
  Directory_toString :: "jsstring \<Rightarrow> jsstring \<Rightarrow> jsstring"
  r_deleteSync :: "error option"
  Url_fromString :: "jsstring \<Rightarrow> jsstring option"
  Url_replaceProtocol :: "jsstring \<Rightarrow> jsstring \<Rightarrow> jsstring"
  r_clone :: "GitRepo promise"
  r_checkoutCommit :: "unit promise"
  r_checkRefFormat :: "jsstring \<Rightarrow> jsstring promise"
  r_checkoutBranch :: "unit promise"
  r_files :: "jsstring list promise"
  r_file_delete :: "jsstring \<Rightarrow> unit promise"
  r_prune :: "unit promise"
  r_publish :: "unit promise"
  r_stageAll :: "unit promise"
  r_commit :: "unit promise"
  r_pub_currentCommitHash :: "jsstring promise"
  r_createTag :: "tagValue \<Rightarrow> unit promise"
  r_pushTag :: "tagValue \<Rightarrow> unit promise"

subsection \<open>Helpers of JavaScript and lodash\<close>

text \<open>Number to string, for a non-negative integer.\<close>

fun showNat :: "nat \<Rightarrow> jsstring" where
  "showNat n = (if n < 10 then [48 + n] else showNat (n div 10) @ [48 + n mod 10])"

declare showNat.simps [simp del]

text \<open>\<open>Array.prototype.join\<close>\<close>

fun join :: "jsstring \<Rightarrow> jsstring list \<Rightarrow> jsstring" where
  "join sep [] = []"
| "join sep [x] = x"
| "join sep (x # y # ys) = x @ sep @ join sep (y # ys)"

text \<open>
  \<open>_.intersection(xs, ys)\<close>: the values of \<open>xs\<close> that are in \<open>ys\<close>, each once, in the
  order of their first occurrence in \<open>xs\<close>. Values are compared without conversion: the
  string \<open>"5"\<close> and the number \<open>5\<close> are different.
\<close>

fun intersection_acc :: "'a list \<Rightarrow> 'a list \<Rightarrow> 'a list \<Rightarrow> 'a list" where
  "intersection_acc acc [] ys = acc"
| "intersection_acc acc (x # xs) ys =
     intersection_acc (if x \<in> set ys \<and> x \<notin> set acc then acc @ [x] else acc) xs ys"

definition intersection :: "'a list \<Rightarrow> 'a list \<Rightarrow> 'a list" where
  "intersection xs ys = intersection_acc [] xs ys"

text \<open>\<open>`${v}`\<close> for a value that is a string or \<open>undefined\<close>.\<close>

definition template_str :: "jsstring option \<Rightarrow> jsstring" where
  "template_str v = (case v of None \<Rightarrow> js ''undefined'' | Some s \<Rightarrow> s)"

text \<open>Truthiness of a value that is a string or \<open>undefined\<close>.\<close>

definition truthy :: "jsstring option \<Rightarrow> bool" where
  "truthy v = (case v of None \<Rightarrow> False | Some s \<Rightarrow> s \<noteq> [])"

text \<open>\<open>Object.prototype.toString\<close> on a promise.\<close>

definition Promise_toString :: "'a promise \<Rightarrow> jsstring" where
  "Promise_toString p = js ''[object Promise]''"

subsection \<open>getInstanceConfig\<close>

text \<open>\<open>[].concat(argv.tag || [])\<close>: a falsy value gives no tag, an array is never falsy.\<close>

definition tagsOfArg :: "tagArg \<Rightarrow> tagValue list" where
  "tagsOfArg a =
     (case a of
        TagUndefined \<Rightarrow> []
      | TagOne t \<Rightarrow> (if tag_truthy t then [t] else [])
      | TagArray ts \<Rightarrow> ts)"

definition getInstanceConfig :: "world \<Rightarrow> IInstanceConfig run" where
  "getInstanceConfig w =
     bind (await GitRepo_fromDirectory (r_GitRepo_fromDirectory w)) (\<lambda>devRepo'.
     bind (await NodePackage_fromDirectory (r_NodePackage_fromDirectory w)) (\<lambda>pkg'.
       let tags0 = tagsOfArg (argv_tag w);
           tags' = (if argv_tag_version w
                    then tags0 @ [StrTag (js ''v'' @ template_str (pkg_version pkg'))]
                    else tags0)
       in if length tags' = 0
          then throw_run (Error (js ''At least one tag must be applied by using either --tag-version or --tag.''))
          else return_run \<lparr> devRepo = devRepo', pkg = pkg', dryRun = argv_dry_run w, tags = tags' \<rparr>))"

subsection \<open>checkInitialConditions\<close>

definition checkInitialConditions :: "world \<Rightarrow> IInstanceConfig \<Rightarrow> unit run" where
  "checkInitialConditions w instanceConfig =
     bind (await Dev_modifiedFiles (r_modifiedFiles w)) (\<lambda>modifiedFiles.
       if length modifiedFiles > 0
       then throw_run (Error (js ''This repository contains modified files.''))
       else
     bind (await Dev_untrackedFiles (r_untrackedFiles w)) (\<lambda>untrackedFiles.
       if length untrackedFiles > 0
       then throw_run (Error (js ''This repository contains untracked files.''))
       else if \<not> truthy (pkg_version (pkg instanceConfig))
       then throw_run (Error (js ''Package does not have a version.''))
       else
     bind (await Dev_tags (r_tags w)) (\<lambda>existingTags.
       let alreadyExist = intersection (map StrTag existingTags) (tags instanceConfig)
       in if length alreadyExist > 0
          then throw_run (Error (js ''The following tags already exist: ''
                                 @ join (js '', '') (map tag_text alreadyExist)))
          else return_run ())))"

subsection \<open>checkoutTempBranch\<close>

definition datestamp :: "date \<Rightarrow> jsstring" where
  "datestamp now =
     showNat (getFullYear now) @ js ''_'' @ showNat (getMonth now) @ js ''_''
     @ showNat (getDate now) @ js ''_'' @ showNat (getHours now) @ js ''_''
     @ showNat (getMinutes now) @ js ''_'' @ showNat (getSeconds now) @ js ''.''
     @ showNat (getMilliseconds now)"

definition tmpBranchName :: "jsstring \<Rightarrow> jsstring \<Rightarrow> date \<Rightarrow> jsstring" where
  "tmpBranchName baseName username now = baseName @ js ''-'' @ username @ js ''-'' @ datestamp now"

text \<open>
  \<open>await GitBranch.create(repo, name)\<close> as a run: the only operation it starts is the
  \<open>check-ref-format\<close> subprocess of \<open>isValidBranchName\<close>.
\<close>

definition create_run :: "world \<Rightarrow> GitRepo \<Rightarrow> jsstring \<Rightarrow> GitRepo GitBranch run" where
  "create_run w repo branchName =
     (case r_checkRefFormat w branchName of
        Pending \<Rightarrow> ([Started (Spawn_checkRefFormat branchName)], Pending)
      | _ \<Rightarrow> ([Started (Spawn_checkRefFormat branchName), Awaited (Spawn_checkRefFormat branchName)],
              GitBranch_create (r_checkRefFormat w) repo branchName None))"

definition checkoutTempBranch :: "world \<Rightarrow> GitRepo \<Rightarrow> jsstring \<Rightarrow> GitRepo GitBranch run" where
  "checkoutTempBranch w repo baseName =
     (let name = tmpBranchName baseName (userInfo_username w) (date_now w)
      in bind (create_run w repo name) (\<lambda>tmpBranch.
         bind (await (Pub_checkoutBranch name True) (r_checkoutBranch w)) (\<lambda>_.
         return_run tmpBranch)))"

subsection \<open>deleteTrackedFiles\<close>

definition deleteTrackedFiles :: "world \<Rightarrow> unit run" where
  "deleteTrackedFiles w =
     bind (await Pub_files (r_files w)) (\<lambda>files.
     bind (await_all (\<lambda>_. []) File_delete (r_file_delete w) files) (\<lambda>_.
     return_run ()))"

subsection \<open>main\<close>

text \<open>Which \<open>return\<close> ended \<open>main\<close>: the one of the dry run, or the end of the function.\<close>

datatype terminal = DryRunStop | Done

definition dryRunMessage :: "GitRepo \<Rightarrow> jsstring" where
  "dryRunMessage publishRepo =
     join [10]
       [js ''Running in dry-run mode.  The repository in the following temporary directory'',
        js ''has been left ready to push to a public server.'',
        repo_directory publishRepo]"

definition doneMessage :: "jsstring \<Rightarrow> tagValue list \<Rightarrow> jsstring \<Rightarrow> jsstring" where
  "doneMessage dependencyUrl tagNames publishCommitHashString =
     join [10]
       (([js ''Done.'',
          js ''To include the published library in a Node.js project, execute the following command:'']
         @ map (\<lambda>curTagName. js ''npm install '' @ dependencyUrl @ js ''#'' @ tag_text curTagName)
               tagNames)
        @ [js ''npm install '' @ dependencyUrl @ js ''#'' @ publishCommitHashString])"

text \<open>The end of \<open>main\<close>: the tags, the stop of a dry run, the push and the report.\<close>

definition tagAndPush ::
  "world \<Rightarrow> IInstanceConfig \<Rightarrow> jsstring \<Rightarrow> GitRepo \<Rightarrow> jsstring promise \<Rightarrow> terminal run" where
  "tagAndPush w instanceConfig repoUrl publishRepo publishCommitHash =
     bind (await_all (\<lambda>curTagName. [Log (js ''Creating tag '' @ tag_text curTagName @ js ''...'')])
                     (\<lambda>curTagName. Pub_createTag curTagName [] False)
                     (r_createTag w) (tags instanceConfig)) (\<lambda>_.
       if dryRun instanceConfig
       then bind (console_log (dryRunMessage publishRepo)) (\<lambda>_. return_run DryRunStop)
       else
     bind (await_all (\<lambda>curTagName. [Log (js ''Pushing tag '' @ tag_text curTagName @ js '' to origin.'')])
                     (\<lambda>curTagName. Pub_pushTag curTagName (js ''origin'') True)
                     (r_pushTag w) (tags instanceConfig)) (\<lambda>_.
       let dependencyUrl = Url_replaceProtocol w repoUrl (js ''git+https'')
       in bind (console_log (doneMessage dependencyUrl (tags instanceConfig)
                               (Promise_toString publishCommitHash))) (\<lambda>_.
          return_run Done)))"

text \<open>
  The part of \<open>main\<close> after the clone exists, from the checkout of the commit to the
  commit of the published files. \<open>checkoutCommit\<close> and the second \<open>currentCommitHash\<close>
  are called with no \<open>await\<close>: \<open>publishCommitHash\<close> is the promise.
\<close>

definition publishSteps ::
  "world \<Rightarrow> IInstanceConfig \<Rightarrow> jsstring \<Rightarrow> jsstring \<Rightarrow> jsstring \<Rightarrow> GitRepo \<Rightarrow> terminal run" where
  "publishSteps w instanceConfig devCommitHash publishDir repoUrl publishRepo =
     bind (call_only (Pub_checkoutCommit devCommitHash) (r_checkoutCommit w)) (\<lambda>_.
     bind (console_log (js ''Checking out current development commit '' @ devCommitHash @ js ''...'')) (\<lambda>_.
     bind (console_log (js ''Creating temporary branch...'')) (\<lambda>_.
     bind (checkoutTempBranch w publishRepo (js ''publishtogit'')) (\<lambda>_.
     bind (console_log (js ''Deleting all files...'')) (\<lambda>_.
     bind (deleteTrackedFiles w) (\<lambda>_.
     bind (await Dir_prune (r_prune w)) (\<lambda>_.
     bind (console_log (js ''Publishing package contents to publish repository...'')) (\<lambda>_.
     bind (await (Pkg_publish publishDir False) (r_publish w)) (\<lambda>_.
     bind (console_log (js ''Commiting published files...'')) (\<lambda>_.
     bind (await Pub_stageAll (r_stageAll w)) (\<lambda>_.
     bind (await (Pub_commit (js ''Published using publish-to-git.'')) (r_commit w)) (\<lambda>_.
     bind (call_only Pub_currentCommitHash (r_pub_currentCommitHash w)) (\<lambda>publishCommitHash.
     tagAndPush w instanceConfig repoUrl publishRepo publishCommitHash)))))))))))))"

text \<open>The part of \<open>main\<close> after \<open>checkInitialConditions\<close>, up to the clone.\<close>

definition afterValidate :: "world \<Rightarrow> IInstanceConfig \<Rightarrow> terminal run" where
  "afterValidate w instanceConfig =
     bind (await Dev_currentCommitHash (r_dev_currentCommitHash w)) (\<lambda>devCommitHash.
       let publishDir = Directory_toString w (config_tmpDir w) (pkg_projectName (pkg instanceConfig))
       in
     bind (sync_call (Dir_deleteSync publishDir) (r_deleteSync w)) (\<lambda>_.
       case pkg_repository_url (pkg instanceConfig) of
         None \<Rightarrow> throw_run TypeError
       | Some url \<Rightarrow>
          (case Url_fromString w url of
             None \<Rightarrow> throw_run (Error (js ''Invalid repository URL.''))
           | Some repoUrl \<Rightarrow>
     bind (console_log (js ''Creating temporary repo clone at '' @ publishDir @ js ''...'')) (\<lambda>_.
     bind (await (GitRepo_clone repoUrl (config_tmpDir w)) (r_clone w)) (\<lambda>publishRepo.
     publishSteps w instanceConfig devCommitHash publishDir repoUrl publishRepo)))))"

definition main :: "world \<Rightarrow> terminal run" where
  "main w =
     bind (sync_call Config_init (r_config_init w)) (\<lambda>_.
     bind (getInstanceConfig w) (\<lambda>instanceConfig.
     bind (checkInitialConditions w instanceConfig) (\<lambda>_.
     afterValidate w instanceConfig)))"

subsection \<open>An example environment\<close>

text \<open>
  A clean checkout of a package \<open>x\<close> at version 1.2.3, published with
  \<open>--tag latest --tag stable\<close>; every operation succeeds. The runs used as examples
  below are variations of it.
\<close>

definition exampleWorld :: world where
  "exampleWorld =
     \<lparr> argv_tag = TagArray [StrTag (js ''latest''), StrTag (js ''stable'')],
       argv_tag_version = False,
       argv_dry_run = False,
       userInfo_username = js ''kw'',
       date_now = \<lparr> getFullYear = 2017, getMonth = 10, getDate = 3, getHours = 14,
                    getMinutes = 5, getSeconds = 9, getMilliseconds = 123 \<rparr>,
       config_tmpDir = js ''/tmp/ptg'',
       r_config_init = None,
       r_GitRepo_fromDirectory = Fulfilled \<lparr> repo_directory = js ''.'' \<rparr>,
       r_NodePackage_fromDirectory =
         Fulfilled \<lparr> pkg_version = Some (js ''1.2.3''),
                     pkg_repository_url = Some (js ''https://h/x.git''),
                     pkg_projectName = js ''x'' \<rparr>,
       r_modifiedFiles = Fulfilled [],
       r_untrackedFiles = Fulfilled [],
       r_tags = Fulfilled [js ''v1.0.0''],
       r_dev_currentCommitHash = Fulfilled (js ''abc123''),
       Directory_toString = (\<lambda>a b. a @ js ''/'' @ b),
       r_deleteSync = None,
       Url_fromString = (\<lambda>u. Some u),
       Url_replaceProtocol = (\<lambda>u p. p @ drop 5 u),
       r_clone = Fulfilled \<lparr> repo_directory = js ''/tmp/ptg/x'' \<rparr>,
       r_checkoutCommit = Fulfilled (),
       r_checkRefFormat = (\<lambda>_. Fulfilled []),
       r_checkoutBranch = Fulfilled (),
       r_files = Fulfilled [js ''a.ts''],
       r_file_delete = (\<lambda>_. Fulfilled ()),
       r_prune = Fulfilled (),
       r_publish = Fulfilled (),
       r_stageAll = Fulfilled (),
       r_commit = Fulfilled (),
       r_pub_currentCommitHash = Fulfilled (js ''def456''),
       r_createTag = (\<lambda>_. Fulfilled ()),
       r_pushTag = (\<lambda>_. Fulfilled ()) \<rparr>"

definition exampleConfig :: IInstanceConfig where
  "exampleConfig =
     \<lparr> devRepo = \<lparr> repo_directory = js ''.'' \<rparr>,
       pkg = \<lparr> pkg_version = Some (js ''1.2.3''),
               pkg_repository_url = Some (js ''https://h/x.git''),
               pkg_projectName = js ''x'' \<rparr>,
       dryRun = False,
       tags = [StrTag (js ''latest''), StrTag (js ''stable'')] \<rparr>"

subsection \<open>Observations on a run\<close>

text \<open>The operations an event is about.\<close>

fun ops_of :: "event \<Rightarrow> op list" where
  "ops_of (Started x) = [x]"
| "ops_of (Awaited x) = [x]"
| "ops_of (AwaitedAll xs) = xs"
| "ops_of (Did _) = []"
| "ops_of (Log _) = []"



text \<open>
  The operations on the target: the clone itself and everything done in or to the clone.
  The queries on the source repository, the two \<open>fromDirectory\<close> constructors and the
  \<open>check-ref-format\<close> subprocess are not among them.
\<close>

fun on_target :: "op \<Rightarrow> bool" where
  "on_target GitRepo_fromDirectory = False"
| "on_target NodePackage_fromDirectory = False"
| "on_target Dev_modifiedFiles = False"
| "on_target Dev_untrackedFiles = False"
| "on_target Dev_tags = False"
| "on_target Dev_currentCommitHash = False"
| "on_target (Spawn_checkRefFormat _) = False"
| "on_target _ = True"

text \<open>
  An event of cloning or of mutation: an operation on the target, or the deletion of
  the stale publish directory. \<open>globalConfig.init()\<close> is the first statement of \<open>main\<close>,
  before any check; it belongs to the configuration, its code is not among the sources,
  and it is not counted.
\<close>

fun clones_or_mutates :: "event \<Rightarrow> bool" where
  "clones_or_mutates (Did (Dir_deleteSync _)) = True"
| "clones_or_mutates (Did Config_init) = False"
| "clones_or_mutates e = list_ex on_target (ops_of e)"

text \<open>An \<open>await\<close> that waits for a \<open>checkoutCommit\<close>, alone or in a \<open>Promise.all\<close>.\<close>

fun is_checkoutCommit :: "op \<Rightarrow> bool" where
  "is_checkoutCommit (Pub_checkoutCommit _) = True"
| "is_checkoutCommit _ = False"

fun awaits_checkoutCommit :: "event \<Rightarrow> bool" where
  "awaits_checkoutCommit (Awaited x) = is_checkoutCommit x"
| "awaits_checkoutCommit (AwaitedAll xs) = list_ex is_checkoutCommit xs"
| "awaits_checkoutCommit _ = False"

text \<open>The branch name an operation is given: the validation of a name and its checkout.\<close>

fun branch_of :: "op \<Rightarrow> jsstring option" where
  "branch_of (Spawn_checkRefFormat n) = Some n"
| "branch_of (Pub_checkoutBranch n _) = Some n"
| "branch_of _ = None"

text \<open>Every branch name in the event is \<open>name\<close>.\<close>

definition only_branch :: "jsstring \<Rightarrow> event \<Rightarrow> bool" where
  "only_branch name e = list_all (\<lambda>x. branch_of x = None \<or> branch_of x = Some name) (ops_of e)"

text \<open>Every event of a run satisfies \<open>P\<close>.\<close>

definition events_sat :: "(event \<Rightarrow> bool) \<Rightarrow> 'a run \<Rightarrow> bool" where
  "events_sat P r = list_all P (fst r)"

text \<open>When the run is fulfilled, its result and its events satisfy \<open>Q\<close>.\<close>

definition on_success :: "('a \<Rightarrow> event list \<Rightarrow> bool) \<Rightarrow> 'a run \<Rightarrow> bool" where
  "on_success Q r = (case snd r of Fulfilled t \<Rightarrow> Q t (fst r) | Rejected _ \<Rightarrow> True | Pending \<Rightarrow> True)"


text \<open>
  What a run that ends at \<open>Done\<close> has reported, for the configuration \<open>cfg\<close>: its last
  event is the completion message, whose last line is built from the text of a promise.
\<close>

definition doneReported :: "IInstanceConfig \<Rightarrow> terminal \<Rightarrow> event list \<Rightarrow> bool" where
  "doneReported cfg t tr =
     (t = Done \<longrightarrow>
        (\<exists>pre url. tr = pre @ [Log (doneMessage url (tags cfg) (js ''[object Promise]''))]))"

subsection \<open>Decimal digits\<close>

definition isDigit :: "nat \<Rightarrow> bool" where
  "isDigit c = (48 \<le> c \<and> c \<le> 57)"

text \<open>The number that a string of decimal digits denotes.\<close>

definition readNat :: "jsstring \<Rightarrow> nat" where
  "readNat s = foldl (\<lambda>a c. 10 * a + (c - 48)) 0 s"

section \<open>Auxiliary notions for the proofs about the matcher\<close>

text \<open>
  \<open>rx_chars r c\<close>: the pattern \<open>r\<close> can consume the code unit \<open>c\<close>.
  \<open>consumed st st' P\<close>: the matcher went from \<open>st\<close> to \<open>st'\<close> by reading a piece of the
  input whose code units all satisfy \<open>P\<close>.
\<close>

fun rx_chars :: "rx \<Rightarrow> nat \<Rightarrow> bool" where
  "rx_chars Eps c = False"
| "rx_chars (Chr d) c = (c = d)"
| "rx_chars (Cls k) c = cls_mem k c"
| "rx_chars (Seq a b) c = (rx_chars a c \<or> rx_chars b c)"
| "rx_chars (Alt a b) c = (rx_chars a c \<or> rx_chars b c)"
| "rx_chars (Star a) c = rx_chars a c"
| "rx_chars (Grp n a) c = rx_chars a c"
| "rx_chars Bol c = False"
| "rx_chars Eol c = False"

definition consumed :: "mstate \<Rightarrow> mstate \<Rightarrow> (nat \<Rightarrow> bool) \<Rightarrow> bool" where
  "consumed st st' P =
     (\<exists>u. fst (snd st) = u @ fst (snd st') \<and> fst st' = rev u @ fst st \<and> (\<forall>c\<in>set u. P c))"

section \<open>Properties of the matcher\<close>

text \<open>
  The equation of the star is taken out of the simplifier's set: it mentions the star
  again under a \<open>\<lambda>\<close>. It is unfolded one step at a time through \<open>ms_Star_mem\<close>.
\<close>

declare ms.simps(6) [simp del]

lemma consumed_refl: "consumed st st P"
  by (simp add: consumed_def)

lemma consumed_trans:
  assumes "consumed a b P" and "consumed b c Q"
  shows "consumed a c (\<lambda>x. P x \<or> Q x)"
proof -
  from assms(1) obtain u where u: "fst (snd a) = u @ fst (snd b)" "fst b = rev u @ fst a" "\<forall>x\<in>set u. P x"
    unfolding consumed_def by blast
  from assms(2) obtain v where v: "fst (snd b) = v @ fst (snd c)" "fst c = rev v @ fst b" "\<forall>x\<in>set v. Q x"
    unfolding consumed_def by blast
  have "fst (snd a) = (u @ v) @ fst (snd c)" using u v by simp
  moreover have "fst c = rev (u @ v) @ fst a" using u v by simp
  moreover have "\<forall>x\<in>set (u @ v). P x \<or> Q x" using u v by auto
  ultimately show ?thesis unfolding consumed_def by blast
qed

lemma consumed_mono: "consumed a b P \<Longrightarrow> (\<And>x. P x \<Longrightarrow> Q x) \<Longrightarrow> consumed a b Q"
  unfolding consumed_def by blast

lemma consumed_one: "P x \<Longrightarrow> consumed (pre, x # xs, caps) (x # pre, xs, caps') P"
  unfolding consumed_def by (rule exI[of _ "[x]"]) simp

lemma ms_Star_mem:
  "st' \<in> set (ms (Star a) (pre, rest, caps)) \<longleftrightarrow>
     st' = (pre, rest, caps) \<or>
     (\<exists>p r c. (p, r, c) \<in> set (ms a (pre, rest, caps)) \<and> length r < length rest
        \<and> st' \<in> set (ms (Star a) (p, r, c)))"
  by (subst ms.simps(6)) (auto split: if_splits)

lemma ms_consumed: "st' \<in> set (ms r st) \<Longrightarrow> consumed st st' (rx_chars r)"
proof (induction r st arbitrary: st' rule: ms.induct)
  case (1 st)
  then show ?case by (simp add: consumed_refl)
next
  case (2 c pre rest caps)
  then show ?case by (auto split: list.splits if_splits intro: consumed_one)
next
  case (3 k pre rest caps)
  then show ?case by (auto split: list.splits if_splits intro: consumed_one)
next
  case (4 a b st)
  from 4(3) obtain m where m: "m \<in> set (ms a st)" "st' \<in> set (ms b m)" by auto
  from consumed_trans[OF 4(1)[OF m(1)] 4(2)[OF m(1) m(2)]] show ?case
    by (rule consumed_mono) simp
next
  case (5 a b st)
  from 5(3) have "st' \<in> set (ms a st) \<or> st' \<in> set (ms b st)" by simp
  then show ?case
  proof
    assume "st' \<in> set (ms a st)"
    from 5(1)[OF this] show ?thesis by (rule consumed_mono) simp
  next
    assume "st' \<in> set (ms b st)"
    from 5(2)[OF this] show ?thesis by (rule consumed_mono) simp
  qed
next
  case (6 a pre rest caps)
  show ?case
  proof (cases "st' = (pre, rest, caps)")
    case True
    then show ?thesis by (simp add: consumed_refl)
  next
    case False
    with 6(3) obtain p r c where m: "(p, r, c) \<in> set (ms a (pre, rest, caps))"
      "length r < length rest" "st' \<in> set (ms (Star a) (p, r, c))"
      using ms_Star_mem[of st' a pre rest caps] by blast
    have "consumed (pre, rest, caps) (p, r, c) (rx_chars a)" using 6(1)[OF m(1)] .
    moreover have "consumed (p, r, c) st' (rx_chars (Star a))"
      using 6(2)[OF m(1) refl refl m(2) m(3)] .
    ultimately have "consumed (pre, rest, caps) st' (\<lambda>x. rx_chars a x \<or> rx_chars (Star a) x)"
      by (rule consumed_trans)
    then show ?thesis by (rule consumed_mono) simp
  qed
next
  case (7 n a pre rest caps)
  then obtain p r c where m: "(p, r, c) \<in> set (ms a (pre, rest, caps))"
     "st' = (p, r, (n, take (length rest - length r) rest) # c)" by auto
  from 7(1)[OF m(1)] have "consumed (pre, rest, caps) st' (rx_chars a)"
    unfolding m(2) by (simp add: consumed_def)
  then show ?case by (rule consumed_mono) simp
next
  case (8 pre rest caps)
  then show ?case by (auto simp: consumed_refl split: if_splits)
next
  case (9 pre rest caps)
  then show ?case by (auto simp: consumed_refl split: if_splits)
qed

lemma exec_from_Bol_None: "pre \<noteq> [] \<Longrightarrow> exec_from (Seq Bol r) pre rest = None"
  by (induction rest arbitrary: pre) simp_all

lemma exec_Bol:
  "exec (Seq Bol r) s = (case ms r ([], s, []) of [] \<Rightarrow> None | st # _ \<Rightarrow> Some (0, st))"
  by (cases s) (simp_all add: exec_def exec_from_Bol_None split: list.splits)

lemma ms_Seq_mem:
  "st'' \<in> set (ms (Seq a b) st) \<longleftrightarrow> (\<exists>st'\<in>set (ms a st). st'' \<in> set (ms b st'))"
  by simp

lemma ms_Eol_rest: "st' \<in> set (ms Eol st) \<Longrightarrow> fst (snd st') = []"
  by (cases st) (auto split: if_splits)

lemma ms_Star_Cls_all:
  "\<forall>c\<in>set u. cls_mem k c \<Longrightarrow>
     (rev u @ pre, rest, caps) \<in> set (ms (Star (Cls k)) (pre, u @ rest, caps))"
proof (induction u arbitrary: pre)
  case Nil
  then show ?case by (subst ms_Star_mem) simp
next
  case (Cons x xs)
  have "(x # pre, xs @ rest, caps) \<in> set (ms (Cls k) (pre, (x # xs) @ rest, caps))"
    using Cons.prems by simp
  moreover have "(rev (x # xs) @ pre, rest, caps) \<in> set (ms (Star (Cls k)) (x # pre, xs @ rest, caps))"
    using Cons.IH[of "x # pre"] Cons.prems by simp
  ultimately show ?case
    by (subst ms_Star_mem) (intro disjI2 exI[of _ "x # pre"] exI[of _ "xs @ rest"] exI[of _ caps], simp)
qed

lemma strParserRegex_chars: "rx_chars strParserRegex c \<Longrightarrow> \<not> isLineTerminator c"
  by (auto simp: strParserRegex_def opt_rx_def plus_rx_def js_def isWordChar_def isLineTerminator_def)

lemma strParserRegex_no_match:
  assumes "exec strParserRegex s = Some res"
  shows "\<forall>c\<in>set s. \<not> isLineTerminator c"
proof -
  define body where "body = Seq (opt_rx (Grp 1 (Seq (lit (js ''remotes/''))
                              (Seq (Grp 2 (plus_rx (Cls WordDotDash))) (Chr 47)))))
            (Seq (Grp 3 (Star (Cls Dot))) Eol)"
  have R: "strParserRegex = Seq Bol body" by (simp add: strParserRegex_def body_def)
  from assms obtain st where st: "st \<in> set (ms body ([], s, []))"
    unfolding R exec_Bol by (auto split: list.splits)
  then have "st \<in> set (ms strParserRegex ([], s, []))" by (simp add: R)
  from ms_consumed[OF this] obtain u where u: "s = u @ fst (snd st)" "\<forall>c\<in>set u. rx_chars strParserRegex c"
    by (auto simp: consumed_def)
  from st have "fst (snd st) = []"
    unfolding body_def ms_Seq_mem using ms_Eol_rest by blast
  with u show ?thesis using strParserRegex_chars by auto
qed

lemma strParserRegex_match:
  assumes "\<forall>c\<in>set s. \<not> isLineTerminator c"
  shows "exec strParserRegex s \<noteq> None"
proof -
  define body where "body = Seq (opt_rx (Grp 1 (Seq (lit (js ''remotes/''))
                              (Seq (Grp 2 (plus_rx (Cls WordDotDash))) (Chr 47)))))
            (Seq (Grp 3 (Star (Cls Dot))) Eol)"
  have R: "strParserRegex = Seq Bol body" by (simp add: strParserRegex_def body_def)
  have 1: "([], s, []) \<in> set (ms (opt_rx (Grp 1 (Seq (lit (js ''remotes/''))
                              (Seq (Grp 2 (plus_rx (Cls WordDotDash))) (Chr 47))))) ([], s, []))"
    by (simp add: opt_rx_def)
  have "(rev s @ [], [], []) \<in> set (ms (Star (Cls Dot)) ([], s @ [], []))"
    by (rule ms_Star_Cls_all) (use assms in simp)
  then have 2: "(rev s, [], [(3, s)]) \<in> set (ms (Grp 3 (Star (Cls Dot))) ([], s, []))"
    by force
  have 3: "(rev s, [], [(3, s)]) \<in> set (ms Eol (rev s, [], [(3, s)]))" by simp
  have "(rev s, [], [(3, s)]) \<in> set (ms body ([], s, []))"
    unfolding body_def ms_Seq_mem using 1 2 3 by blast
  then have "ms body ([], s, []) \<noteq> []" by auto
  then show ?thesis unfolding R exec_Bol by (simp split: list.splits)
qed

lemma strParserRegex_matches_iff:
  "exec strParserRegex s \<noteq> None \<longleftrightarrow> (\<forall>c\<in>set s. \<not> isLineTerminator c)"
  using strParserRegex_match strParserRegex_no_match by blast

section \<open>Properties of enumerateGitRepoBranches\<close>

text \<open>The equations that evaluate the matcher on a given string.\<close>

lemmas matcher_eval =
  enumerateGitRepoBranches_def branchLines_def parseLongName_def new_GitBranch_def group_def
  test_def exec_def replace_empty_def trim_def js_def
  strParserRegex_def currentMarkerRegex_def headLineRegex_def plus_rx_def opt_rx_def
  ms.simps(6) isWhiteSpace_def isLineTerminator_def isWordChar_def

lemma exec_from_suffix:
  "exec_from r pre rest = Some (i, pre', rest', caps) \<Longrightarrow> \<exists>u. rest = u @ rest'"
proof (induction rest arbitrary: pre)
  case Nil
  then obtain st where "st \<in> set (ms r (pre, [], []))" "st = (pre', rest', caps)"
    by (auto split: list.splits)
  then show ?case using ms_consumed[of st r "(pre, [], [])"] by (auto simp: consumed_def)
next
  case (Cons x xs)
  show ?case
  proof (cases "ms r (pre, x # xs, [])")
    case Nil
    with Cons.prems have "exec_from r (x # pre) xs = Some (i, pre', rest', caps)" by simp
    from Cons.IH[OF this] obtain u where "xs = u @ rest'" by blast
    then have "x # xs = (x # u) @ rest'" by simp
    then show ?thesis by blast
  next
    case (Cons st sts)
    with Cons.prems have "st = (pre', rest', caps)" by simp
    moreover have "st \<in> set (ms r (pre, x # xs, []))" using Cons by simp
    ultimately show ?thesis using ms_consumed[of st r "(pre, x # xs, [])"] by (auto simp: consumed_def)
  qed
qed

lemma set_replace_empty: "set (replace_empty r s) \<subseteq> set s"
proof (cases "exec r s")
  case None
  then show ?thesis by (simp add: replace_empty_def)
next
  case (Some res)
  obtain i pre' rest' caps where res: "res = (i, pre', rest', caps)" by (cases res) auto
  with Some obtain u where "s = u @ rest'" using exec_from_suffix unfolding exec_def by blast
  then have "set rest' \<subseteq> set s" by auto
  moreover have "set (take i s) \<subseteq> set s" by (rule set_take_subset)
  ultimately show ?thesis using Some res by (simp add: replace_empty_def)
qed

lemma set_trim: "set (trim s) \<subseteq> set s"
proof -
  have "set (trim s) \<subseteq> set (rev (dropWhile isWhiteSpace s))"
    unfolding trim_def using set_dropWhileD by fastforce
  also have "\<dots> \<subseteq> set s" using set_dropWhileD by fastforce
  finally show ?thesis .
qed

lemma split_lines:
  "l \<in> set (split sep s) \<Longrightarrow> sep \<notin> set l \<and> set l \<subseteq> set s"
proof (induction s arbitrary: l)
  case Nil
  then show ?case by simp
next
  case (Cons x xs)
  show ?case
  proof (cases "x = sep")
    case True
    with Cons show ?thesis by auto
  next
    case False
    show ?thesis
    proof (cases "split sep xs")
      case Nil
      with Cons.prems False show ?thesis by simp
    next
      case lines: (Cons l0 ls)
      with Cons.prems False have "l = x # l0 \<or> l \<in> set ls" by simp
      then show ?thesis
      proof
        assume "l = x # l0"
        moreover have "sep \<notin> set l0 \<and> set l0 \<subseteq> set xs" using Cons.IH[of l0] lines by simp
        ultimately show ?thesis using False by auto
      next
        assume "l \<in> set ls"
        then have "sep \<notin> set l \<and> set l \<subseteq> set xs" using Cons.IH[of l] lines by simp
        then show ?thesis by auto
      qed
    qed
  qed
qed

lemma branchLines_chars:
  assumes "l \<in> set (branchLines stdout)"
  shows "10 \<notin> set l \<and> set l \<subseteq> set stdout"
proof -
  from assms obtain l0 where l0: "l0 \<in> set (split 10 stdout)"
    and l: "l = trim (replace_empty currentMarkerRegex (trim l0))"
    by (auto simp: branchLines_def)
  have "set l \<subseteq> set l0"
    unfolding l using set_trim set_replace_empty by (meson subset_trans)
  with split_lines[OF l0] show ?thesis by auto
qed

lemma map_throwing_Inl_iff:
  "(\<exists>e. map_throwing f xs = Inl e) \<longleftrightarrow> (\<exists>x\<in>set xs. \<exists>e. f x = Inl e)"
  by (induction xs) (auto split: sum.splits)

lemma parseLongName_Inl_iff:
  "(\<exists>e. parseLongName repo l = Inl e) \<longleftrightarrow> (\<exists>c\<in>set l. isLineTerminator c)"
  using strParserRegex_matches_iff[of l]
  by (auto simp: parseLongName_def split: option.splits)

text \<open>
  Claim C10, as amended. The parsing pattern \<open>strParserRegex\<close> matches exactly the strings
  that contain no line terminator (LF, CR, U+2028, U+2029): its last group is \<open>(.*)\<close>, and
  the dot does not match a line terminator. A line that reaches the parser has no LF, so
  \<open>enumerateGitRepoBranches\<close> ends in the parse error exactly when such a line contains
  CR, U+2028 or U+2029; on an output without these three it never does.
\<close>

theorem strParserRegex_matches_exactly:
  "(exec strParserRegex s \<noteq> None \<longleftrightarrow> (\<forall>c\<in>set s. \<not> isLineTerminator c))
   \<and> ((\<exists>e. enumerateGitRepoBranches repo (Inr stdout) = Inl e) \<longleftrightarrow>
        (\<exists>l\<in>set (branchLines stdout). \<exists>c\<in>set l. c = 13 \<or> c = 8232 \<or> c = 8233))
   \<and> ((\<forall>c\<in>set stdout. c \<noteq> 13 \<and> c \<noteq> 8232 \<and> c \<noteq> 8233) \<longrightarrow>
        (\<exists>branches. enumerateGitRepoBranches repo (Inr stdout) = Inr branches))"
proof (intro conjI impI)
  show "exec strParserRegex s \<noteq> None \<longleftrightarrow> (\<forall>c\<in>set s. \<not> isLineTerminator c)"
    by (rule strParserRegex_matches_iff)
  have fails: "(\<exists>e. enumerateGitRepoBranches repo (Inr stdout) = Inl e) \<longleftrightarrow>
        (\<exists>l\<in>set (branchLines stdout). \<exists>c\<in>set l. isLineTerminator c)"
    by (simp add: enumerateGitRepoBranches_def map_throwing_Inl_iff parseLongName_Inl_iff)
  also have "\<dots> \<longleftrightarrow> (\<exists>l\<in>set (branchLines stdout). \<exists>c\<in>set l. c = 13 \<or> c = 8232 \<or> c = 8233)"
    using branchLines_chars[of _ stdout] by (auto simp: isLineTerminator_def)
  finally show parse_error: "(\<exists>e. enumerateGitRepoBranches repo (Inr stdout) = Inl e) \<longleftrightarrow>
        (\<exists>l\<in>set (branchLines stdout). \<exists>c\<in>set l. c = 13 \<or> c = 8232 \<or> c = 8233)" .
  assume "\<forall>c\<in>set stdout. c \<noteq> 13 \<and> c \<noteq> 8232 \<and> c \<noteq> 8233"
  then have "\<not> (\<exists>l\<in>set (branchLines stdout). \<exists>c\<in>set l. c = 13 \<or> c = 8232 \<or> c = 8233)"
    using branchLines_chars[of _ stdout] by blast
  then have "\<not> (\<exists>e. enumerateGitRepoBranches repo (Inr stdout) = Inl e)"
    using parse_error by simp
  then show "\<exists>branches. enumerateGitRepoBranches repo (Inr stdout) = Inr branches"
    by (cases "enumerateGitRepoBranches repo (Inr stdout)") auto
qed

text \<open>C10 at the lines \<open>remotes/origin/master\<close> and \<open>* main\<close>.\<close>

theorem strParserRegex_matches_exactly_witness:
  "exec strParserRegex (js ''remotes/origin/master'') \<noteq> None
   \<and> (\<forall>e. enumerateGitRepoBranches () (Inr (js ''* main'')) \<noteq> Inl e)"
proof
  show "exec strParserRegex (js ''remotes/origin/master'') \<noteq> None"
    using strParserRegex_matches_exactly[of "js ''remotes/origin/master''" "()" "[]"]
    by (simp add: js_def isLineTerminator_def)
  have "branchLines (js ''* main'') = [js ''main'']"
    by (simp add: matcher_eval)
  then show "\<forall>e. enumerateGitRepoBranches () (Inr (js ''* main'')) \<noteq> Inl e"
    using strParserRegex_matches_exactly[of "[]" "()" "js ''* main''"]
    by (simp add: js_def isLineTerminator_def)
qed

text \<open>
  Claim C10, as stated, fails: a branch \<open>ma<U+2028>in\<close> (git accepts the name) gives
  a line that the pattern does not match, that survives the filter, and that ends the
  enumeration with the parse error.
\<close>

theorem strParserRegex_line_separator_counterexample:
  "exec strParserRegex (js ''ma'' @ [8232] @ js ''in'') = None
   \<and> js ''ma'' @ [8232] @ js ''in'' \<in> set (branchLines (js ''* ma'' @ [8232] @ js ''in''))
   \<and> enumerateGitRepoBranches () (Inr (js ''* ma'' @ [8232] @ js ''in'')) =
       Inl (Error (js ''Error: Branch '' @ [34] @ js ''ma'' @ [8232] @ js ''in'' @ [34]
                   @ js '' could not be parsed by enumerateGitRepoBranches().''))"
  by (simp add: matcher_eval)

text \<open>
  Claim C5 at the symbolic-reference line of a remote whose default branch is
  \<open>release-1.0\<close>: the filter \<open>headLineRegex\<close> admits only \<open>[\w/]\<close> in the two names, so
  the line is kept and becomes a branch named \<open>HEAD -> origin/release-1.0\<close>. The line
  \<open>remotes/origin/HEAD -> origin/master\<close> is discarded.
\<close>

theorem enumerate_keeps_head_line_with_dash:
  "enumerateGitRepoBranches repo (Inr (js ''  remotes/origin/HEAD -> origin/release-1.0'')) =
     Inr [\<lparr> gb_repo = repo, gb_remoteName = Some (js ''origin''),
            gb_name = Some (js ''HEAD -> origin/release-1.0'') \<rparr>]
   \<and> enumerateGitRepoBranches repo (Inr (js ''  remotes/origin/HEAD -> origin/master'')) = Inr []"
  by (simp add: matcher_eval)

section \<open>Properties of promises and of the Validator\<close>








section \<open>Properties of GitBranch.create\<close>

lemma isValid_isValidBranchName:
  "isValid [isValidBranchName crf] name =
     (case crf name of Fulfilled _ \<Rightarrow> Fulfilled True | Rejected _ \<Rightarrow> Fulfilled False | Pending \<Rightarrow> Pending)"
  by (simp add: isValid_def isValidBranchName_def Promise_resolve_def catch_p_def then_p_def
      split: promise.splits)

text \<open>
  Claim C7. When the validation of a name gives \<open>false\<close>, \<open>GitBranch.create\<close> fails with
  the invalid-branch-name error, which is not a \<open>ProcessError\<close>; when it gives \<open>true\<close>,
  \<open>create\<close> returns a branch that carries the name. The validation gives \<open>false\<close> when
  the \<open>check-ref-format\<close> subprocess fails and \<open>true\<close> when it succeeds, so the failure of
  the subprocess never reaches the caller as a \<open>ProcessError\<close>.
\<close>

theorem GitBranch_create_validates:
  "(isValid [isValidBranchName crf] name = Fulfilled False \<longrightarrow>
      GitBranch_create crf repo name remote =
        Rejected (Error (js ''Cannot create GitBranch instance from invalid branch name '' @ name @ js ''.''))
      \<and> (\<forall>code text. GitBranch_create crf repo name remote \<noteq> Rejected (ProcessError code text)))
   \<and> (isValid [isValidBranchName crf] name = Fulfilled True \<longrightarrow>
      (\<exists>b. GitBranch_create crf repo name remote = Fulfilled b
           \<and> gb_name b = Some name \<and> gb_repo b = repo))
   \<and> ((\<exists>e. crf name = Rejected e) \<longrightarrow> isValid [isValidBranchName crf] name = Fulfilled False)
   \<and> ((\<exists>out. crf name = Fulfilled out) \<longrightarrow> isValid [isValidBranchName crf] name = Fulfilled True)"
  by (auto simp: GitBranch_create_def new_GitBranch_def isValid_isValidBranchName split: promise.splits)

text \<open>C7 at the names \<open>a..b\<close> (refused by git) and \<open>main\<close>.\<close>

theorem GitBranch_create_validates_witness:
  "GitBranch_create (\<lambda>n. if n = js ''a..b'' then Rejected (ProcessError 1 []) else Fulfilled [])
       () (js ''a..b'') None =
     Rejected (Error (js ''Cannot create GitBranch instance from invalid branch name a..b.''))
   \<and> (\<exists>b. GitBranch_create (\<lambda>n. if n = js ''a..b'' then Rejected (ProcessError 1 []) else Fulfilled [])
            () (js ''main'') None = Fulfilled b \<and> gb_name b = Some (js ''main''))"
proof
  let ?crf = "\<lambda>n. if n = js ''a..b'' then Rejected (ProcessError 1 []) else Fulfilled []"
  have "isValid [isValidBranchName ?crf] (js ''a..b'') = Fulfilled False"
    by (simp add: isValid_isValidBranchName)
  with GitBranch_create_validates[of ?crf "js ''a..b''" "()" None]
  show "GitBranch_create ?crf () (js ''a..b'') None =
     Rejected (Error (js ''Cannot create GitBranch instance from invalid branch name a..b.''))"
    by (simp add: js_def)
  have "isValid [isValidBranchName ?crf] (js ''main'') = Fulfilled True"
    by (simp add: isValid_isValidBranchName js_def)
  with GitBranch_create_validates[of ?crf "js ''main''" "()" None]
  show "\<exists>b. GitBranch_create ?crf () (js ''main'') None = Fulfilled b \<and> gb_name b = Some (js ''main'')"
    by blast
qed

section \<open>Properties of the publish workflow\<close>

subsection \<open>Runs and their events\<close>

lemma bind_Fulfilled: "bind (t, Fulfilled v) f = (t @ fst (f v), snd (f v))"
  by (simp add: bind_def split: prod.splits)

lemma bind_Rejected: "bind (t, Rejected e) f = (t, Rejected e)"
  by (simp add: bind_def)

lemma bind_Pending: "bind (t, Pending) f = (t, Pending)"
  by (simp add: bind_def)

lemma bind_not_Fulfilled:
  "(\<forall>v. snd m \<noteq> Fulfilled v) \<Longrightarrow> fst (bind m f) = fst m \<and> (\<forall>v. snd (bind m f) \<noteq> Fulfilled v)"
  by (cases m; cases "snd m") (auto simp: bind_def)

lemma snd_bind_Rejected: "snd m = Rejected e \<Longrightarrow> snd (bind m f) = Rejected e"
  by (cases m) (auto simp: bind_def)

lemma fst_bind_Rejected: "snd m = Rejected e \<Longrightarrow> fst (bind m f) = fst m"
  by (cases m) (auto simp: bind_def)

lemma events_sat_bind:
  "events_sat P m \<Longrightarrow> (\<And>v. snd m = Fulfilled v \<Longrightarrow> events_sat P (f v)) \<Longrightarrow> events_sat P (bind m f)"
  by (cases m; cases "snd m") (auto simp: bind_def events_sat_def split: prod.splits)

lemma events_sat_bind_stop:
  "events_sat P m \<Longrightarrow> (\<forall>v. snd m \<noteq> Fulfilled v) \<Longrightarrow> events_sat P (bind m f)"
  by (cases m; cases "snd m") (auto simp: bind_def events_sat_def split: prod.splits)

lemma events_sat_await: "P (Started x) \<Longrightarrow> P (Awaited x) \<Longrightarrow> events_sat P (await x p)"
  by (simp add: await_def events_sat_def split: promise.splits)

lemma events_sat_call_only: "P (Started x) \<Longrightarrow> events_sat P (call_only x p)"
  by (simp add: call_only_def events_sat_def)

lemma events_sat_sync_call: "P (Did x) \<Longrightarrow> events_sat P (sync_call x r)"
  by (simp add: sync_call_def events_sat_def)

lemma events_sat_console_log: "P (Log s) \<Longrightarrow> events_sat P (console_log s)"
  by (simp add: console_log_def events_sat_def)

lemma events_sat_return: "events_sat P (return_run v)"
  by (simp add: return_run_def events_sat_def)

lemma events_sat_throw: "events_sat P (throw_run e)"
  by (simp add: throw_run_def events_sat_def)

lemma events_sat_await_all:
  "(\<And>a. a \<in> set xs \<Longrightarrow> list_all P (logs a) \<and> P (Started (x a))) \<Longrightarrow> P (AwaitedAll (map x xs)) \<Longrightarrow>
   events_sat P (await_all logs x p xs)"
  by (auto simp: await_all_def events_sat_def Let_def list_all_iff split: promise.splits)

lemma events_sat_getInstanceConfig:
  "P (Started GitRepo_fromDirectory) \<Longrightarrow> P (Awaited GitRepo_fromDirectory) \<Longrightarrow>
   P (Started NodePackage_fromDirectory) \<Longrightarrow> P (Awaited NodePackage_fromDirectory) \<Longrightarrow>
   events_sat P (getInstanceConfig w)"
  unfolding getInstanceConfig_def
  by (intro events_sat_bind events_sat_await) (simp_all add: Let_def events_sat_throw events_sat_return)

lemma events_sat_checkInitialConditions:
  "P (Started Dev_modifiedFiles) \<Longrightarrow> P (Awaited Dev_modifiedFiles) \<Longrightarrow>
   P (Started Dev_untrackedFiles) \<Longrightarrow> P (Awaited Dev_untrackedFiles) \<Longrightarrow>
   P (Started Dev_tags) \<Longrightarrow> P (Awaited Dev_tags) \<Longrightarrow>
   events_sat P (checkInitialConditions w cfg)"
  unfolding checkInitialConditions_def
  by (auto intro!: events_sat_bind events_sat_await simp: Let_def events_sat_throw events_sat_return)

subsection \<open>Validation\<close>

lemma checkInitialConditions_dirty:
  assumes "r_modifiedFiles w = Fulfilled modified" and "r_untrackedFiles w = Fulfilled untracked"
    and "modified \<noteq> [] \<or> untracked \<noteq> []"
  shows "snd (checkInitialConditions w cfg) =
           Rejected (Error (if modified \<noteq> [] then js ''This repository contains modified files.''
                            else js ''This repository contains untracked files.''))"
  using assms
  by (auto simp: checkInitialConditions_def await_def bind_Fulfilled throw_run_def)

text \<open>
  Claim C3. When the source repository has at least one modified file or at least one
  untracked file, \<open>checkInitialConditions\<close> fails with the error that says so, \<open>main\<close>
  does not complete, and the run contains no event of cloning or of mutation: not the
  deletion of the publish directory, not the clone, nothing in the clone.
\<close>

theorem validate_refuses_dirty_repository:
  assumes "r_modifiedFiles w = Fulfilled modified" and "r_untrackedFiles w = Fulfilled untracked"
    and "modified \<noteq> [] \<or> untracked \<noteq> []"
  shows "snd (checkInitialConditions w cfg) =
           Rejected (Error (if modified \<noteq> [] then js ''This repository contains modified files.''
                            else js ''This repository contains untracked files.''))
         \<and> (\<forall>t. snd (main w) \<noteq> Fulfilled t)
         \<and> (r_config_init w = None \<and> snd (getInstanceConfig w) = Fulfilled cfg \<longrightarrow>
              snd (main w) =
                Rejected (Error (if modified \<noteq> [] then js ''This repository contains modified files.''
                                 else js ''This repository contains untracked files.'')))
         \<and> (\<forall>e\<in>set (fst (main w)). \<not> clones_or_mutates e)"
proof (intro conjI)
  let ?msg = "if modified \<noteq> [] then js ''This repository contains modified files.''
              else js ''This repository contains untracked files.''"
  have dirty: "snd (checkInitialConditions w c) = Rejected (Error ?msg)" for c
    using assms by (rule checkInitialConditions_dirty)
  show "snd (checkInitialConditions w cfg) = Rejected (Error ?msg)" by (rule dirty)
  have stop: "\<forall>t. snd (bind (checkInitialConditions w c) (\<lambda>_. afterValidate w c)) \<noteq> Fulfilled t" for c
    using snd_bind_Rejected[OF dirty[of c], of "\<lambda>_. afterValidate w c"] by simp
  show "\<forall>t. snd (main w) \<noteq> Fulfilled t"
    unfolding main_def
    by (cases "r_config_init w"; cases "getInstanceConfig w"; cases "snd (getInstanceConfig w)")
       (use stop in \<open>auto simp: sync_call_def bind_Fulfilled bind_Rejected bind_Pending\<close>)
  show "r_config_init w = None \<and> snd (getInstanceConfig w) = Fulfilled cfg \<longrightarrow>
          snd (main w) = Rejected (Error ?msg)"
    unfolding main_def
    by (cases "getInstanceConfig w")
       (use snd_bind_Rejected[OF dirty[of cfg], of "\<lambda>_. afterValidate w cfg"] in
         \<open>auto simp: sync_call_def bind_Fulfilled\<close>)
  have validate: "events_sat (\<lambda>e. \<not> clones_or_mutates e)
            (bind (checkInitialConditions w c) (\<lambda>_. afterValidate w c))" for c
    by (rule events_sat_bind_stop, rule events_sat_checkInitialConditions)
       (simp_all add: dirty)
  have config: "events_sat (\<lambda>e. \<not> clones_or_mutates e) (getInstanceConfig w)"
    by (rule events_sat_getInstanceConfig) simp_all
  have init: "events_sat (\<lambda>e. \<not> clones_or_mutates e) (sync_call Config_init (r_config_init w))"
    by (rule events_sat_sync_call) simp
  have "events_sat (\<lambda>e. \<not> clones_or_mutates e) (main w)"
    unfolding main_def
    by (rule events_sat_bind[OF init], rule events_sat_bind[OF config], rule validate)
  then show "\<forall>e\<in>set (fst (main w)). \<not> clones_or_mutates e"
    by (simp add: events_sat_def list_all_iff)
qed

text \<open>The equations that evaluate a run in a given environment.\<close>

lemmas run_eval =
  main_def afterValidate_def publishSteps_def tagAndPush_def getInstanceConfig_def checkInitialConditions_def
  checkoutTempBranch_def create_run_def deleteTrackedFiles_def GitBranch_create_def
  isValid_isValidBranchName new_GitBranch_def
  bind_def await_def call_only_def sync_call_def console_log_def await_all_def
  return_run_def throw_run_def tagsOfArg_def template_str_def truthy_def intersection_def
  tmpBranchName_def datestamp_def showNat.simps exampleWorld_def exampleConfig_def
  dryRunMessage_def doneMessage_def Promise_toString_def Let_def js_def

text \<open>C3 in the example environment with one untracked file.\<close>

theorem validate_refuses_dirty_repository_witness:
  "snd (main (exampleWorld\<lparr>r_untrackedFiles := Fulfilled [js ''notes.txt'']\<rparr>)) =
     Rejected (Error (js ''This repository contains untracked files.''))
   \<and> \<not> list_ex clones_or_mutates
         (fst (main (exampleWorld\<lparr>r_untrackedFiles := Fulfilled [js ''notes.txt'']\<rparr>)))"
proof -
  let ?w = "exampleWorld\<lparr>r_untrackedFiles := Fulfilled [js ''notes.txt'']\<rparr>"
  have 1: "r_modifiedFiles ?w = Fulfilled []" by (simp add: exampleWorld_def)
  have 2: "r_untrackedFiles ?w = Fulfilled [js ''notes.txt'']" by simp
  have 3: "([]::jsstring list) \<noteq> [] \<or> [js ''notes.txt''] \<noteq> []" by simp
  have 4: "r_config_init ?w = None \<and> snd (getInstanceConfig ?w) = Fulfilled exampleConfig"
    by (simp add: run_eval)
  from validate_refuses_dirty_repository[OF 1 2 3, of exampleConfig] 4
  show ?thesis by (simp add: list_ex_iff)
qed

lemma intersection_acc_set:
  "set (intersection_acc acc xs ys) = set acc \<union> (set xs \<inter> set ys)"
  by (induction xs arbitrary: acc) auto

lemma intersection_acc_distinct:
  "distinct acc \<Longrightarrow> distinct (intersection_acc acc xs ys)"
  by (induction xs arbitrary: acc) auto

lemma intersection_set: "set (intersection xs ys) = set xs \<inter> set ys"
  by (simp add: intersection_def intersection_acc_set)

lemma intersection_distinct: "distinct (intersection xs ys)"
  by (simp add: intersection_def intersection_acc_distinct)

lemma intersection_empty_iff: "intersection xs ys = [] \<longleftrightarrow> set xs \<inter> set ys = {}"
  using intersection_set[of xs ys] by auto

lemma intersection_acc_map:
  assumes "inj f"
  shows "intersection_acc (map f acc) (map f xs) (map f ys) = map f (intersection_acc acc xs ys)"
proof (induction xs arbitrary: acc)
  case Nil
  then show ?case by simp
next
  case (Cons x xs)
  have mem: "f x \<in> f ` set zs \<longleftrightarrow> x \<in> set zs" for zs
    using assms by (simp add: inj_image_mem_iff)
  show ?case
    using Cons.IH[of "acc @ [x]"] Cons.IH[of acc] by (simp add: mem)
qed

lemma intersection_StrTag:
  "map tag_text (intersection (map StrTag xs) (map StrTag ys)) = intersection xs ys"
proof -
  have "inj StrTag" by (simp add: inj_def)
  from intersection_acc_map[OF this, of "[]" xs ys]
  have "intersection (map StrTag xs) (map StrTag ys) = map StrTag (intersection xs ys)"
    by (simp add: intersection_def)
  then show ?thesis by (simp add: comp_def)
qed

text \<open>
  Claim C4, as amended. \<open>checkInitialConditions\<close> fails at its first failing check, in the
  order modified files, untracked files, missing version, existing tags, and asks the
  repository nothing after that check. So a requested tag set that meets the existing
  tags always makes it fail; and when the first three checks pass and the tags are
  requested as strings, it fails exactly when the intersection is not empty, with a
  message that lists exactly the tags of the intersection, each once.
\<close>

theorem validate_names_existing_tags:
  "(r_modifiedFiles w = Fulfilled modified \<and> modified \<noteq> [] \<longrightarrow>
      checkInitialConditions w cfg =
        ([Started Dev_modifiedFiles, Awaited Dev_modifiedFiles],
         Rejected (Error (js ''This repository contains modified files.''))))
   \<and> (r_modifiedFiles w = Fulfilled [] \<and> r_untrackedFiles w = Fulfilled untracked
        \<and> untracked \<noteq> [] \<longrightarrow>
      checkInitialConditions w cfg =
        ([Started Dev_modifiedFiles, Awaited Dev_modifiedFiles,
          Started Dev_untrackedFiles, Awaited Dev_untrackedFiles],
         Rejected (Error (js ''This repository contains untracked files.''))))
   \<and> (r_modifiedFiles w = Fulfilled [] \<and> r_untrackedFiles w = Fulfilled []
        \<and> \<not> truthy (pkg_version (pkg cfg)) \<longrightarrow>
      checkInitialConditions w cfg =
        ([Started Dev_modifiedFiles, Awaited Dev_modifiedFiles,
          Started Dev_untrackedFiles, Awaited Dev_untrackedFiles],
         Rejected (Error (js ''Package does not have a version.''))))
   \<and> (r_modifiedFiles w = Fulfilled [] \<and> r_untrackedFiles w = Fulfilled []
        \<and> truthy (pkg_version (pkg cfg)) \<and> r_tags w = Fulfilled existing
        \<and> tags cfg = map StrTag requested \<longrightarrow>
      checkInitialConditions w cfg =
        ([Started Dev_modifiedFiles, Awaited Dev_modifiedFiles,
          Started Dev_untrackedFiles, Awaited Dev_untrackedFiles,
          Started Dev_tags, Awaited Dev_tags],
         if set existing \<inter> set requested = {}
         then Fulfilled ()
         else Rejected (Error (js ''The following tags already exist: ''
                               @ join (js '', '') (intersection existing requested)))))
   \<and> set (intersection existing requested) = set existing \<inter> set requested
   \<and> distinct (intersection existing requested)"
proof (intro conjI impI)
  assume "r_modifiedFiles w = Fulfilled modified \<and> modified \<noteq> []"
  then show "checkInitialConditions w cfg =
        ([Started Dev_modifiedFiles, Awaited Dev_modifiedFiles],
         Rejected (Error (js ''This repository contains modified files.'')))"
    by (simp add: checkInitialConditions_def await_def bind_def throw_run_def)
next
  assume "r_modifiedFiles w = Fulfilled [] \<and> r_untrackedFiles w = Fulfilled untracked
        \<and> untracked \<noteq> []"
  then show "checkInitialConditions w cfg =
        ([Started Dev_modifiedFiles, Awaited Dev_modifiedFiles,
          Started Dev_untrackedFiles, Awaited Dev_untrackedFiles],
         Rejected (Error (js ''This repository contains untracked files.'')))"
    by (simp add: checkInitialConditions_def await_def bind_def throw_run_def)
next
  assume "r_modifiedFiles w = Fulfilled [] \<and> r_untrackedFiles w = Fulfilled []
        \<and> \<not> truthy (pkg_version (pkg cfg))"
  then show "checkInitialConditions w cfg =
        ([Started Dev_modifiedFiles, Awaited Dev_modifiedFiles,
          Started Dev_untrackedFiles, Awaited Dev_untrackedFiles],
         Rejected (Error (js ''Package does not have a version.'')))"
    by (simp add: checkInitialConditions_def await_def bind_def throw_run_def)
next
  assume a: "r_modifiedFiles w = Fulfilled [] \<and> r_untrackedFiles w = Fulfilled []
        \<and> truthy (pkg_version (pkg cfg)) \<and> r_tags w = Fulfilled existing
        \<and> tags cfg = map StrTag requested"
  have empty: "intersection (map StrTag existing) (map StrTag requested) = []
      \<longleftrightarrow> set existing \<inter> set requested = {}"
    using intersection_StrTag[of existing requested] intersection_empty_iff[of existing requested]
    by (metis list.map_disc_iff)
  from a show "checkInitialConditions w cfg =
        ([Started Dev_modifiedFiles, Awaited Dev_modifiedFiles,
          Started Dev_untrackedFiles, Awaited Dev_untrackedFiles,
          Started Dev_tags, Awaited Dev_tags],
         if set existing \<inter> set requested = {}
         then Fulfilled ()
         else Rejected (Error (js ''The following tags already exist: ''
                               @ join (js '', '') (intersection existing requested))))"
    by (simp add: checkInitialConditions_def await_def bind_def throw_run_def return_run_def
        Let_def empty intersection_StrTag)
next
  show "set (intersection existing requested) = set existing \<inter> set requested"
    by (rule intersection_set)
  show "distinct (intersection existing requested)"
    by (rule intersection_distinct)
qed

text \<open>
  C4 in the example environment: where the tag \<open>stable\<close> exists already, and where it
  exists and the package has no version.
\<close>

theorem validate_names_existing_tags_witness:
  "snd (checkInitialConditions (exampleWorld\<lparr>r_tags := Fulfilled [js ''v1.0.0'', js ''stable'']\<rparr>)
          exampleConfig) =
     Rejected (Error (js ''The following tags already exist: stable''))
   \<and> snd (checkInitialConditions (exampleWorld\<lparr>r_tags := Fulfilled [js ''v1.0.0'', js ''stable'']\<rparr>)
          (exampleConfig\<lparr>pkg := (pkg exampleConfig)\<lparr>pkg_version := None\<rparr>\<rparr>)) =
     Rejected (Error (js ''Package does not have a version.''))"
proof
  let ?w = "exampleWorld\<lparr>r_tags := Fulfilled [js ''v1.0.0'', js ''stable'']\<rparr>"
  show "snd (checkInitialConditions ?w exampleConfig) =
     Rejected (Error (js ''The following tags already exist: stable''))"
    using validate_names_existing_tags[of ?w "[]" exampleConfig "[]"
        "[js ''v1.0.0'', js ''stable'']" "[js ''latest'', js ''stable'']"]
    by (simp add: exampleWorld_def exampleConfig_def truthy_def intersection_def js_def)
  show "snd (checkInitialConditions ?w (exampleConfig\<lparr>pkg := (pkg exampleConfig)\<lparr>pkg_version := None\<rparr>\<rparr>)) =
     Rejected (Error (js ''Package does not have a version.''))"
    using validate_names_existing_tags[of ?w "[]"
        "exampleConfig\<lparr>pkg := (pkg exampleConfig)\<lparr>pkg_version := None\<rparr>\<rparr>" "[]" "[]" "[]"]
    by (simp add: exampleWorld_def truthy_def)
qed

text \<open>
  Claim C4, as stated, fails. With a modified file and an existing tag \<open>stable\<close>, the
  error is the one of the modified files and names no tag. And with \<open>--tag 5\<close> on a clean
  repository that has the tag \<open>5\<close>, the requested tag is the number 5, the intersection
  that the code computes is empty, and the validation passes.
\<close>

theorem validate_tag_collision_counterexample:
  "set (map StrTag [js ''stable'']) \<inter> set (tags exampleConfig) \<noteq> {}
   \<and> snd (checkInitialConditions
            (exampleWorld\<lparr>r_modifiedFiles := Fulfilled [js ''a.ts''], r_tags := Fulfilled [js ''stable'']\<rparr>)
            exampleConfig) =
       Rejected (Error (js ''This repository contains modified files.''))
   \<and> snd (getInstanceConfig
            (exampleWorld\<lparr>argv_tag := TagOne (NumTag (js ''5'')), r_tags := Fulfilled [js ''5'']\<rparr>)) =
       Fulfilled (exampleConfig\<lparr>tags := [NumTag (js ''5'')]\<rparr>)
   \<and> map tag_text (tags (exampleConfig\<lparr>tags := [NumTag (js ''5'')]\<rparr>)) = [js ''5'']
   \<and> snd (checkInitialConditions
            (exampleWorld\<lparr>argv_tag := TagOne (NumTag (js ''5'')), r_tags := Fulfilled [js ''5'']\<rparr>)
            (exampleConfig\<lparr>tags := [NumTag (js ''5'')]\<rparr>)) =
       Fulfilled ()"
  by (simp add: run_eval)

subsection \<open>Events of the whole run\<close>

lemma events_sat_if:
  "(c \<Longrightarrow> events_sat P a) \<Longrightarrow> (\<not> c \<Longrightarrow> events_sat P b) \<Longrightarrow> events_sat P (if c then a else b)"
  by simp

lemma events_sat_case_option:
  "(x = None \<Longrightarrow> events_sat P a) \<Longrightarrow> (\<And>y. x = Some y \<Longrightarrow> events_sat P (f y)) \<Longrightarrow>
   events_sat P (case x of None \<Rightarrow> a | Some y \<Rightarrow> f y)"
  by (cases x) simp_all

lemma events_sat_create_run:
  "P (Started (Spawn_checkRefFormat n)) \<Longrightarrow> P (Awaited (Spawn_checkRefFormat n)) \<Longrightarrow>
   events_sat P (create_run w repo n)"
  by (simp add: create_run_def events_sat_def split: promise.splits)

lemmas events_sat_intros =
  events_sat_bind events_sat_await events_sat_call_only events_sat_sync_call
  events_sat_console_log events_sat_return events_sat_throw events_sat_await_all
  events_sat_if events_sat_case_option events_sat_create_run

subsection \<open>The checkout of the development commit\<close>

lemma no_await_of_checkoutCommit:
  "events_sat (\<lambda>e. \<not> awaits_checkoutCommit e) (main w)"
  unfolding main_def afterValidate_def publishSteps_def tagAndPush_def checkoutTempBranch_def
    deleteTrackedFiles_def getInstanceConfig_def checkInitialConditions_def Let_def
  by (intro events_sat_intros) (simp_all add: list_ex_iff list_all_iff)

lemma bind_call_only: "bind (call_only x p) f = (Started x # fst (f p), snd (f p))"
  by (simp add: call_only_def bind_Fulfilled)

lemma bind_console_log: "bind (console_log s) f = (Log s # fst (f ()), snd (f ()))"
  by (simp add: console_log_def bind_Fulfilled)

lemma fst_bind_prefix: "\<exists>rest. fst (bind m f) = fst m @ rest"
  by (cases m; cases "snd m") (auto simp: bind_def split: prod.splits)

lemma fst_create_run: "\<exists>rest. fst (create_run w repo n) = Started (Spawn_checkRefFormat n) # rest"
  by (simp add: create_run_def split: promise.splits)

lemma publishSteps_starts:
  "\<exists>rest. fst (publishSteps w cfg h d u r) =
     Started (Pub_checkoutCommit h)
     # Log (js ''Checking out current development commit '' @ h @ js ''...'')
     # Log (js ''Creating temporary branch...'')
     # Started (Spawn_checkRefFormat (tmpBranchName (js ''publishtogit'') (userInfo_username w) (date_now w)))
     # rest"
proof -
  let ?n = "tmpBranchName (js ''publishtogit'') (userInfo_username w) (date_now w)"
  obtain r1 where r1: "fst (create_run w r ?n) = Started (Spawn_checkRefFormat ?n) # r1"
    using fst_create_run by blast
  have "\<exists>rest. fst (checkoutTempBranch w r (js ''publishtogit'')) = fst (create_run w r ?n) @ rest"
    unfolding checkoutTempBranch_def Let_def by (rule fst_bind_prefix)
  then obtain r2 where r2: "fst (checkoutTempBranch w r (js ''publishtogit'')) =
      Started (Spawn_checkRefFormat ?n) # r1 @ r2"
    using r1 by auto
  have "\<exists>rest. fst (bind (checkoutTempBranch w r (js ''publishtogit'')) k) =
      fst (checkoutTempBranch w r (js ''publishtogit'')) @ rest" for k :: "GitRepo GitBranch \<Rightarrow> terminal run"
    by (rule fst_bind_prefix)
  then show ?thesis
    unfolding publishSteps_def bind_call_only bind_console_log
    using r2 by (auto simp: r2)
qed

text \<open>
  Claim C1, on the code. \<open>main\<close> calls \<open>publishRepo.checkoutCommit\<close> with no \<open>await\<close>:
  once the clone exists, the run starts the checkout, logs two lines and starts the
  \<open>check-ref-format\<close> subprocess of \<open>GitBranch.create\<close> for the temporary branch, with
  nothing between them that waits for the checkout; and no run of \<open>main\<close> ever waits for
  a \<open>checkoutCommit\<close>. The creation of the temporary branch begins while the checkout is
  still running.
\<close>

theorem checkoutCommit_never_awaited:
  "(\<exists>rest. fst (publishSteps w cfg h d u r) =
       Started (Pub_checkoutCommit h)
       # Log (js ''Checking out current development commit '' @ h @ js ''...'')
       # Log (js ''Creating temporary branch...'')
       # Started (Spawn_checkRefFormat (tmpBranchName (js ''publishtogit'') (userInfo_username w) (date_now w)))
       # rest)
   \<and> \<not> list_ex awaits_checkoutCommit (fst (main w))"
  using publishSteps_starts[of w cfg h d u r] no_await_of_checkoutCommit[of w]
  by (simp add: events_sat_def list_ex_iff list_all_iff)

subsection \<open>Fulfilled runs\<close>

lemma on_success_bind:
  assumes mono: "\<And>t pre tr. Q t tr \<Longrightarrow> Q t (pre @ tr)"
    and step: "\<And>v. snd m = Fulfilled v \<Longrightarrow> on_success Q (f v)"
  shows "on_success Q (bind m f)"
proof (cases m)
  case (Pair t p)
  show ?thesis
  proof (cases p)
    case (Fulfilled v)
    with Pair step[of v] mono show ?thesis
      by (auto simp: on_success_def bind_def split: prod.splits promise.splits)
  qed (use Pair in \<open>simp_all add: on_success_def bind_def\<close>)
qed

lemma on_success_mono:
  "on_success Q r \<Longrightarrow> (\<And>t tr. Q t tr \<Longrightarrow> Q' t tr) \<Longrightarrow> on_success Q' r"
  by (auto simp: on_success_def split: promise.splits)

lemma on_success_throw: "on_success Q (throw_run e)"
  by (simp add: on_success_def throw_run_def)

lemma on_success_case_option:
  "(x = None \<Longrightarrow> on_success Q a) \<Longrightarrow> (\<And>y. x = Some y \<Longrightarrow> on_success Q (f y)) \<Longrightarrow>
   on_success Q (case x of None \<Rightarrow> a | Some y \<Rightarrow> f y)"
  by (cases x) simp_all

text \<open>
  A property of the fulfilled runs of \<open>tagAndPush\<close> that still holds when events are put
  in front is a property of the fulfilled runs of \<open>main\<close>.
\<close>

lemma publishSteps_on_success:
  assumes "\<And>t pre tr. Q t tr \<Longrightarrow> Q t (pre @ tr)"
    and "\<And>p. on_success Q (tagAndPush w cfg u r p)"
  shows "on_success Q (publishSteps w cfg h d u r)"
  unfolding publishSteps_def
  by (intro on_success_bind assms)

lemma afterValidate_on_success:
  assumes "\<And>t pre tr. Q t tr \<Longrightarrow> Q t (pre @ tr)"
    and "\<And>u r p. on_success Q (tagAndPush w cfg u r p)"
  shows "on_success Q (afterValidate w cfg)"
  unfolding afterValidate_def Let_def
  by (intro on_success_bind on_success_case_option on_success_throw publishSteps_on_success assms)

lemma main_on_success:
  assumes mono: "\<And>cfg t pre tr. Q cfg t tr \<Longrightarrow> Q cfg t (pre @ tr)"
    and last: "\<And>cfg u r p. snd (getInstanceConfig w) = Fulfilled cfg \<Longrightarrow>
                on_success (Q cfg) (tagAndPush w cfg u r p)"
  shows "on_success (\<lambda>t tr. \<exists>cfg. snd (getInstanceConfig w) = Fulfilled cfg \<and> Q cfg t tr) (main w)"
proof -
  define Q' where "Q' = (\<lambda>t tr. \<exists>cfg. snd (getInstanceConfig w) = Fulfilled cfg \<and> Q cfg t tr)"
  have mono': "Q' t tr \<Longrightarrow> Q' t (pre @ tr)" for t tr pre
    unfolding Q'_def using mono by blast
  have validate: "on_success Q' (bind (checkInitialConditions w cfg) (\<lambda>_. afterValidate w cfg))"
    if cfg: "snd (getInstanceConfig w) = Fulfilled cfg" for cfg
  proof -
    have "on_success (Q cfg) (bind (checkInitialConditions w cfg) (\<lambda>_. afterValidate w cfg))"
      by (intro on_success_bind afterValidate_on_success mono last cfg)
    then show ?thesis
      by (rule on_success_mono) (use cfg in \<open>auto simp: Q'_def\<close>)
  qed
  have config: "on_success Q' (bind (getInstanceConfig w)
      (\<lambda>cfg. bind (checkInitialConditions w cfg) (\<lambda>_. afterValidate w cfg)))"
    using mono' validate by (rule on_success_bind[where Q = Q'])
  have "on_success Q' (main w)"
    unfolding main_def using mono' config by (rule on_success_bind[where Q = Q'])
  then show ?thesis by (simp add: Q'_def)
qed

subsection \<open>The dry run\<close>








subsection \<open>The completion report\<close>

lemma doneReported_mono: "doneReported cfg t tr \<Longrightarrow> doneReported cfg t (pre @ tr)"
  by (auto simp: doneReported_def)

lemma tagAndPush_done: "on_success (doneReported cfg) (tagAndPush w cfg url repo p)"
proof (cases "dryRun cfg")
  case True
  then show ?thesis
    by (cases "Promise_all (map (r_createTag w) (tags cfg))")
       (simp_all add: tagAndPush_def await_all_def bind_def console_log_def return_run_def
          on_success_def doneReported_def)
next
  case False
  then show ?thesis
    by (cases "Promise_all (map (r_createTag w) (tags cfg))";
        cases "Promise_all (map (r_pushTag w) (tags cfg))")
       (auto simp: tagAndPush_def await_all_def bind_def console_log_def return_run_def
          on_success_def doneReported_def Promise_toString_def Let_def)
qed

lemma tagAndPush_ignores_publish_commit:
  "tagAndPush (w\<lparr>r_pub_currentCommitHash := p\<rparr>) cfg u r q = tagAndPush w cfg u r q'"
  by (simp add: tagAndPush_def Promise_toString_def Let_def cong: if_cong)

lemma publishSteps_ignores_publish_commit:
  "publishSteps (w\<lparr>r_pub_currentCommitHash := p\<rparr>) cfg h d u r = publishSteps w cfg h d u r"
proof -
  have 1: "checkoutTempBranch (w\<lparr>r_pub_currentCommitHash := p\<rparr>) = checkoutTempBranch w"
    by (intro ext) (simp add: checkoutTempBranch_def create_run_def Let_def cong: promise.case_cong)
  have 2: "deleteTrackedFiles (w\<lparr>r_pub_currentCommitHash := p\<rparr>) = deleteTrackedFiles w"
    by (simp add: deleteTrackedFiles_def)
  have 3: "tagAndPush (w\<lparr>r_pub_currentCommitHash := p\<rparr>) cfg u r q = tagAndPush w cfg u r q'" for q q'
    by (rule tagAndPush_ignores_publish_commit)
  show ?thesis
    unfolding publishSteps_def 1 2 bind_call_only
    by (simp add: 3[of _ "r_pub_currentCommitHash w"])
qed

lemma main_ignores_publish_commit: "main (w\<lparr>r_pub_currentCommitHash := p\<rparr>) = main w"
proof -
  have 1: "getInstanceConfig (w\<lparr>r_pub_currentCommitHash := p\<rparr>) = getInstanceConfig w"
    by (simp add: getInstanceConfig_def Let_def cong: if_cong)
  have 2: "checkInitialConditions (w\<lparr>r_pub_currentCommitHash := p\<rparr>) = checkInitialConditions w"
    by (intro ext) (simp add: checkInitialConditions_def Let_def cong: if_cong)
  have 3: "afterValidate (w\<lparr>r_pub_currentCommitHash := p\<rparr>) = afterValidate w"
    by (intro ext)
       (simp add: afterValidate_def publishSteps_ignores_publish_commit Let_def cong: option.case_cong)
  show ?thesis
    unfolding main_def 1 2 3 by simp
qed

text \<open>
  Claim C8, on the code. \<open>main\<close> takes \<open>publishRepo.currentCommitHash()\<close> with no \<open>await\<close>,
  so \<open>publishCommitHash\<close> is a promise: the run does not depend on what the commit hash
  of the publish commit is, and the last line of the completion message of a run that
  ends at \<open>Done\<close> is \<open>npm install <url>#[object Promise]\<close>. The lines for the tags are
  there.
\<close>

theorem done_report_prints_promise:
  "main (w\<lparr>r_pub_currentCommitHash := p\<rparr>) = main w
   \<and> on_success (\<lambda>t tr. \<exists>cfg. snd (getInstanceConfig w) = Fulfilled cfg \<and> doneReported cfg t tr) (main w)"
  using main_ignores_publish_commit[where w = w and p = p] main_on_success[of doneReported w]
    doneReported_mono tagAndPush_done
  by blast

text \<open>C8 in the example environment, where the publish commit is \<open>def456\<close>.\<close>

theorem done_report_prints_promise_witness:
  "snd (main exampleWorld) = Fulfilled Done
   \<and> r_pub_currentCommitHash exampleWorld = Fulfilled (js ''def456'')
   \<and> (\<exists>pre url. fst (main exampleWorld) =
         pre @ [Log (doneMessage url [StrTag (js ''latest''), StrTag (js ''stable'')] (js ''[object Promise]''))])
   \<and> last (fst (main exampleWorld)) =
       Log (join [10]
             [js ''Done.'',
              js ''To include the published library in a Node.js project, execute the following command:'',
              js ''npm install git+https://h/x.git#latest'',
              js ''npm install git+https://h/x.git#stable'',
              js ''npm install git+https://h/x.git#[object Promise]''])"
proof -
  have b: "snd (main exampleWorld) = Fulfilled Done" by (simp add: run_eval)
  have c: "snd (getInstanceConfig exampleWorld) = Fulfilled exampleConfig"
    by (simp add: run_eval)
  have d: "last (fst (main exampleWorld)) =
       Log (join [10]
             [js ''Done.'',
              js ''To include the published library in a Node.js project, execute the following command:'',
              js ''npm install git+https://h/x.git#latest'',
              js ''npm install git+https://h/x.git#stable'',
              js ''npm install git+https://h/x.git#[object Promise]''])"
    by (simp add: run_eval)
  have e: "r_pub_currentCommitHash exampleWorld = Fulfilled (js ''def456'')"
    by (simp add: exampleWorld_def)
  from done_report_prints_promise[where w = exampleWorld and p = Pending] b c
  have "\<exists>pre url. fst (main exampleWorld) =
         pre @ [Log (doneMessage url [StrTag (js ''latest''), StrTag (js ''stable'')] (js ''[object Promise]''))]"
    by (auto simp: on_success_def doneReported_def exampleConfig_def)
  with b d e show ?thesis by blast
qed

subsection \<open>The name of the temporary branch\<close>

lemma showNat_digits: "\<forall>c\<in>set (showNat n). isDigit c"
proof (induction n rule: showNat.induct)
  case (1 n)
  show ?case
  proof (cases "n < 10")
    case True
    then show ?thesis by (subst showNat.simps) (simp add: isDigit_def)
  next
    case False
    have "n mod 10 < 10" by simp
    then have "isDigit (48 + n mod 10)" unfolding isDigit_def by linarith
    with 1 False show ?thesis by (subst showNat.simps) simp
  qed
qed

lemma readNat_snoc: "readNat (s @ [c]) = 10 * readNat s + (c - 48)"
  by (simp add: readNat_def)

lemma readNat_showNat: "readNat (showNat n) = n"
proof (induction n rule: showNat.induct)
  case (1 n)
  show ?case
  proof (cases "n < 10")
    case True
    then show ?thesis by (subst showNat.simps) (simp add: readNat_def)
  next
    case False
    with 1 show ?thesis by (subst showNat.simps) (simp add: readNat_snoc)
  qed
qed

lemma showNat_inj:
  assumes "showNat a = showNat b"
  shows "a = b"
proof -
  have "readNat (showNat a) = readNat (showNat b)" by (simp only: assms)
  then show ?thesis by (simp only: readNat_showNat)
qed

lemma digits_then_sep:
  assumes "\<forall>c\<in>set a. isDigit c" and "\<forall>c\<in>set a'. isDigit c" and "\<not> isDigit x"
    and "a @ x # r = a' @ x # r'"
  shows "a = a' \<and> r = r'"
proof -
  have "takeWhile isDigit (a @ x # r) = a"
    using assms(1,3) by (simp add: takeWhile_append2)
  moreover have "takeWhile isDigit (a' @ x # r') = a'"
    using assms(2,3) by (simp add: takeWhile_append2)
  ultimately have "a = a'" using assms(4) by simp
  with assms(4) show ?thesis by simp
qed

lemma showNat_then_sep:
  assumes "\<not> isDigit x" and "showNat a @ x # r = showNat b @ x # r'"
  shows "a = b \<and> r = r'"
  using digits_then_sep[OF showNat_digits showNat_digits assms] showNat_inj by blast

lemma datestamp_inj:
  assumes "datestamp d = datestamp d'"
  shows "d = d'"
proof -
  have sep: "\<not> isDigit 95" "\<not> isDigit 46" by (simp_all add: isDigit_def)
  from assms have e1: "showNat (getFullYear d) @ 95 # (showNat (getMonth d) @ 95 # (showNat (getDate d) @ 95 #
      (showNat (getHours d) @ 95 # (showNat (getMinutes d) @ 95 # (showNat (getSeconds d) @ 46 #
      showNat (getMilliseconds d)))))) =
    showNat (getFullYear d') @ 95 # (showNat (getMonth d') @ 95 # (showNat (getDate d') @ 95 #
      (showNat (getHours d') @ 95 # (showNat (getMinutes d') @ 95 # (showNat (getSeconds d') @ 46 #
      showNat (getMilliseconds d'))))))"
    by (simp add: datestamp_def js_def)
  from showNat_then_sep[OF sep(1) e1] have y: "getFullYear d = getFullYear d'"
    and e2: "showNat (getMonth d) @ 95 # (showNat (getDate d) @ 95 #
      (showNat (getHours d) @ 95 # (showNat (getMinutes d) @ 95 # (showNat (getSeconds d) @ 46 #
      showNat (getMilliseconds d))))) =
      showNat (getMonth d') @ 95 # (showNat (getDate d') @ 95 #
      (showNat (getHours d') @ 95 # (showNat (getMinutes d') @ 95 # (showNat (getSeconds d') @ 46 #
      showNat (getMilliseconds d')))))" by blast+
  from showNat_then_sep[OF sep(1) e2] have mo: "getMonth d = getMonth d'"
    and e3: "showNat (getDate d) @ 95 #
      (showNat (getHours d) @ 95 # (showNat (getMinutes d) @ 95 # (showNat (getSeconds d) @ 46 #
      showNat (getMilliseconds d)))) =
      showNat (getDate d') @ 95 #
      (showNat (getHours d') @ 95 # (showNat (getMinutes d') @ 95 # (showNat (getSeconds d') @ 46 #
      showNat (getMilliseconds d'))))" by blast+
  from showNat_then_sep[OF sep(1) e3] have da: "getDate d = getDate d'"
    and e4: "showNat (getHours d) @ 95 # (showNat (getMinutes d) @ 95 # (showNat (getSeconds d) @ 46 #
      showNat (getMilliseconds d))) =
      showNat (getHours d') @ 95 # (showNat (getMinutes d') @ 95 # (showNat (getSeconds d') @ 46 #
      showNat (getMilliseconds d')))" by blast+
  from showNat_then_sep[OF sep(1) e4] have ho: "getHours d = getHours d'"
    and e5: "showNat (getMinutes d) @ 95 # (showNat (getSeconds d) @ 46 # showNat (getMilliseconds d)) =
      showNat (getMinutes d') @ 95 # (showNat (getSeconds d') @ 46 # showNat (getMilliseconds d'))"
    by blast+
  from showNat_then_sep[OF sep(1) e5] have mi: "getMinutes d = getMinutes d'"
    and e6: "showNat (getSeconds d) @ 46 # showNat (getMilliseconds d) =
      showNat (getSeconds d') @ 46 # showNat (getMilliseconds d')" by blast+
  from showNat_then_sep[OF sep(2) e6] have se: "getSeconds d = getSeconds d'"
    and "showNat (getMilliseconds d) = showNat (getMilliseconds d')" by blast+
  then have ms: "getMilliseconds d = getMilliseconds d'" using showNat_inj by blast
  from y mo da ho mi se ms show ?thesis by simp
qed

lemma tmpBranchName_inj:
  "tmpBranchName b u d = tmpBranchName b u d' \<longleftrightarrow> d = d'"
  using datestamp_inj by (auto simp: tmpBranchName_def)

lemma checkoutTempBranch_trace:
  "fst (checkoutTempBranch w repo baseName) =
     (let name = tmpBranchName baseName (userInfo_username w) (date_now w)
      in case r_checkRefFormat w name of
           Pending \<Rightarrow> [Started (Spawn_checkRefFormat name)]
         | Rejected e \<Rightarrow> [Started (Spawn_checkRefFormat name), Awaited (Spawn_checkRefFormat name)]
         | Fulfilled _ \<Rightarrow>
             [Started (Spawn_checkRefFormat name), Awaited (Spawn_checkRefFormat name),
              Started (Pub_checkoutBranch name True)]
             @ (case r_checkoutBranch w of Pending \<Rightarrow> [] | _ \<Rightarrow> [Awaited (Pub_checkoutBranch name True)]))"
  by (simp add: checkoutTempBranch_def create_run_def GitBranch_create_def isValid_isValidBranchName
      bind_def await_def return_run_def Let_def split: promise.splits)

lemma checkoutTempBranch_invalid:
  "r_checkRefFormat w (tmpBranchName baseName (userInfo_username w) (date_now w)) = Rejected e \<Longrightarrow>
   snd (checkoutTempBranch w repo baseName) =
     Rejected (Error (js ''Cannot create GitBranch instance from invalid branch name ''
                      @ tmpBranchName baseName (userInfo_username w) (date_now w) @ js ''.''))"
  by (simp add: checkoutTempBranch_def create_run_def GitBranch_create_def isValid_isValidBranchName
      bind_def Let_def)

lemma main_only_tmpBranchName:
  "events_sat (only_branch (tmpBranchName (js ''publishtogit'') (userInfo_username w) (date_now w)))
     (main w)"
  unfolding main_def afterValidate_def publishSteps_def tagAndPush_def checkoutTempBranch_def
    deleteTrackedFiles_def getInstanceConfig_def checkInitialConditions_def Let_def
  by (intro events_sat_intros) (simp_all add: only_branch_def list_all_iff)

text \<open>
  Claim C9, as amended. The name of the temporary branch is the base name, the user name
  and a time stamp of the year, the month (from zero), the day, the hours, the minutes,
  the seconds and the milliseconds, not padded: two instants give the same name only
  when all seven fields agree, the milliseconds included. Every branch name that a run
  of \<open>main\<close> validates or checks out is this name with the base \<open>publishtogit\<close>.
  \<open>checkoutTempBranch\<close> validates the name through \<open>GitBranch.create\<close> first and checks
  the branch out only when the validation succeeded; a refused name ends it with the
  invalid-branch-name error.
\<close>

theorem tmpBranchName_millisecond_stamp:
  "tmpBranchName baseName username now =
     baseName @ js ''-'' @ username @ js ''-''
     @ showNat (getFullYear now) @ js ''_'' @ showNat (getMonth now) @ js ''_''
     @ showNat (getDate now) @ js ''_'' @ showNat (getHours now) @ js ''_''
     @ showNat (getMinutes now) @ js ''_'' @ showNat (getSeconds now) @ js ''.''
     @ showNat (getMilliseconds now)
   \<and> (tmpBranchName baseName username d = tmpBranchName baseName username d' \<longleftrightarrow> d = d')
   \<and> list_all (only_branch (tmpBranchName (js ''publishtogit'') (userInfo_username w) (date_now w)))
        (fst (main w))
   \<and> fst (checkoutTempBranch w repo baseName) =
       (let name = tmpBranchName baseName (userInfo_username w) (date_now w)
        in case r_checkRefFormat w name of
             Pending \<Rightarrow> [Started (Spawn_checkRefFormat name)]
           | Rejected e \<Rightarrow> [Started (Spawn_checkRefFormat name), Awaited (Spawn_checkRefFormat name)]
           | Fulfilled _ \<Rightarrow>
               [Started (Spawn_checkRefFormat name), Awaited (Spawn_checkRefFormat name),
                Started (Pub_checkoutBranch name True)]
               @ (case r_checkoutBranch w of
                    Pending \<Rightarrow> []
                  | _ \<Rightarrow> [Awaited (Pub_checkoutBranch name True)]))
   \<and> ((\<exists>e. r_checkRefFormat w (tmpBranchName baseName (userInfo_username w) (date_now w)) = Rejected e)
        \<longrightarrow> snd (checkoutTempBranch w repo baseName) =
              Rejected (Error (js ''Cannot create GitBranch instance from invalid branch name ''
                               @ tmpBranchName baseName (userInfo_username w) (date_now w) @ js ''.'')))"
proof (intro conjI impI)
  show "tmpBranchName baseName username now =
     baseName @ js ''-'' @ username @ js ''-''
     @ showNat (getFullYear now) @ js ''_'' @ showNat (getMonth now) @ js ''_''
     @ showNat (getDate now) @ js ''_'' @ showNat (getHours now) @ js ''_''
     @ showNat (getMinutes now) @ js ''_'' @ showNat (getSeconds now) @ js ''.''
     @ showNat (getMilliseconds now)"
    by (simp add: tmpBranchName_def datestamp_def)
  show "tmpBranchName baseName username d = tmpBranchName baseName username d' \<longleftrightarrow> d = d'"
    by (rule tmpBranchName_inj)
  show "list_all (only_branch (tmpBranchName (js ''publishtogit'') (userInfo_username w) (date_now w)))
        (fst (main w))"
    using main_only_tmpBranchName[of w] by (simp add: events_sat_def)
  show "fst (checkoutTempBranch w repo baseName) =
       (let name = tmpBranchName baseName (userInfo_username w) (date_now w)
        in case r_checkRefFormat w name of
             Pending \<Rightarrow> [Started (Spawn_checkRefFormat name)]
           | Rejected e \<Rightarrow> [Started (Spawn_checkRefFormat name), Awaited (Spawn_checkRefFormat name)]
           | Fulfilled _ \<Rightarrow>
               [Started (Spawn_checkRefFormat name), Awaited (Spawn_checkRefFormat name),
                Started (Pub_checkoutBranch name True)]
               @ (case r_checkoutBranch w of
                    Pending \<Rightarrow> []
                  | _ \<Rightarrow> [Awaited (Pub_checkoutBranch name True)]))"
    by (rule checkoutTempBranch_trace)
next
  assume "\<exists>e. r_checkRefFormat w (tmpBranchName baseName (userInfo_username w) (date_now w)) = Rejected e"
  then show "snd (checkoutTempBranch w repo baseName) =
              Rejected (Error (js ''Cannot create GitBranch instance from invalid branch name ''
                               @ tmpBranchName baseName (userInfo_username w) (date_now w) @ js ''.''))"
    using checkoutTempBranch_invalid by blast
qed

text \<open>C9 in the example environment, and with a \<open>check-ref-format\<close> that refuses the name.\<close>

theorem tmpBranchName_millisecond_stamp_witness:
  "tmpBranchName (js ''publishtogit'') (userInfo_username exampleWorld) (date_now exampleWorld) =
     js ''publishtogit-kw-2017_10_3_14_5_9.123''
   \<and> snd (checkoutTempBranch (exampleWorld\<lparr>r_checkRefFormat := \<lambda>_. Rejected (ProcessError 1 [])\<rparr>)
            \<lparr>repo_directory = js ''/tmp/ptg/x''\<rparr> (js ''publishtogit'')) =
       Rejected (Error (js ''Cannot create GitBranch instance from invalid branch name publishtogit-kw-2017_10_3_14_5_9.123.''))"
proof
  show "tmpBranchName (js ''publishtogit'') (userInfo_username exampleWorld) (date_now exampleWorld) =
     js ''publishtogit-kw-2017_10_3_14_5_9.123''"
    using tmpBranchName_millisecond_stamp[of "js ''publishtogit''" "userInfo_username exampleWorld"
        "date_now exampleWorld" "date_now exampleWorld" "date_now exampleWorld" exampleWorld
        "\<lparr>repo_directory = []\<rparr>"]
    by (simp add: exampleWorld_def showNat.simps js_def)
  let ?w = "exampleWorld\<lparr>r_checkRefFormat := \<lambda>_. Rejected (ProcessError 1 [])\<rparr>"
  have "\<exists>e. r_checkRefFormat ?w (tmpBranchName (js ''publishtogit'') (userInfo_username ?w) (date_now ?w)) = Rejected e"
    by simp
  with tmpBranchName_millisecond_stamp[of "js ''publishtogit''" "[]" "date_now ?w" "date_now ?w" "date_now ?w"
      ?w "\<lparr>repo_directory = js ''/tmp/ptg/x''\<rparr>"]
  show "snd (checkoutTempBranch ?w \<lparr>repo_directory = js ''/tmp/ptg/x''\<rparr> (js ''publishtogit'')) =
       Rejected (Error (js ''Cannot create GitBranch instance from invalid branch name publishtogit-kw-2017_10_3_14_5_9.123.''))"
    by (simp add: exampleWorld_def tmpBranchName_def datestamp_def showNat.simps js_def)
qed

text \<open>
  Claim C9, as stated, fails: two instants of the same second, one millisecond apart,
  give two different names, so the time stamp is finer than one second.
\<close>

theorem tmpBranchName_same_second_counterexample:
  "tmpBranchName (js ''publishtogit'') (js ''kw'')
     \<lparr> getFullYear = 2017, getMonth = 10, getDate = 3, getHours = 14,
       getMinutes = 5, getSeconds = 9, getMilliseconds = 123 \<rparr>
     = js ''publishtogit-kw-2017_10_3_14_5_9.123''
   \<and> tmpBranchName (js ''publishtogit'') (js ''kw'')
     \<lparr> getFullYear = 2017, getMonth = 10, getDate = 3, getHours = 14,
       getMinutes = 5, getSeconds = 9, getMilliseconds = 124 \<rparr>
     = js ''publishtogit-kw-2017_10_3_14_5_9.124''
   \<and> tmpBranchName (js ''publishtogit'') (js ''kw'')
     \<lparr> getFullYear = 2017, getMonth = 10, getDate = 3, getHours = 14,
       getMinutes = 5, getSeconds = 9, getMilliseconds = 123 \<rparr>
     \<noteq> tmpBranchName (js ''publishtogit'') (js ''kw'')
     \<lparr> getFullYear = 2017, getMonth = 10, getDate = 3, getHours = 14,
       getMinutes = 5, getSeconds = 9, getMilliseconds = 124 \<rparr>"
  by (simp add: tmpBranchName_def datestamp_def showNat.simps js_def)

end
